theory Spec2Isabelle
  imports Main "HOL-Library.Word"
begin

section \<open>GPU time correlation and frequency calibration (rgxtimecorr.c)\<close>

text \<open>
  A shallow embedding of \<^verbatim>\<open>rgxtimecorr.c\<close>. The C structures are records, the
  unsigned 32 and 64 bit integers are words (arithmetic wraps), and every function takes
  the machine state and returns the new one. The headers of the driver are not part of
  the sources at hand: their constants, macros and the functions of the host operating
  system are fields of the record \<open>platform\<close>, so every result below holds for any
  choice of them. Debug output (\<^verbatim>\<open>PVR_DPF\<close>) has no effect on the state and is left out.
\<close>

subsection \<open>Data model\<close>

type_synonym IMG_UINT32 = "32 word"
type_synonym IMG_UINT64 = "64 word"

datatype PVRSRV_ERROR =
    PVRSRV_OK
  | PVRSRV_ERROR_INVALID_PARAMS
  | PVRSRV_ERROR_OTHER nat

datatype PVRSRV_DEV_POWER_STATE =
    PVRSRV_DEV_POWER_STATE_DEFAULT
  | PVRSRV_DEV_POWER_STATE_OFF
  | PVRSRV_DEV_POWER_STATE_ON

text \<open>
  What C leaves undefined, or what stops a debug build, is a value of type \<open>fault\<close>:
  a division by zero, an array index outside the array, a failed \<^verbatim>\<open>PVR_ASSERT\<close>.
\<close>

datatype fault = DivisionByZero | IndexOutOfBounds | AssertionFailed

text \<open>The calls to collaborators outside the file, in the order they are made.\<close>

datatype call =
    Call_RGXReadHWTimerReg
  | Call_OSClockMonotonicns64
  | Call_OSClockMonotonicRawns64
  | Call_OSClockns64
  | Call_OSTryLockAcquire bool
  | Call_PVRSRVGetDevicePowerState
  | Call_PVRSRVPowerUnlock
  | Call_HTBSyncScale bool IMG_UINT64 IMG_UINT64 IMG_UINT32

record RGX_GPU_DVFS_TABLE =
  aui32DVFSClock :: "IMG_UINT32 list"
  ui32CurrentDVFSId :: IMG_UINT32
  ui64CalibrationCRTimestamp :: IMG_UINT64
  ui64CalibrationOSTimestamp :: IMG_UINT64
  ui64CalibrationCRTimediff :: IMG_UINT64
  ui64CalibrationOSTimediff :: IMG_UINT64
  ui32CalibrationPeriod :: IMG_UINT32
  bAccumulatePeriod :: bool

record RGXFWIF_TIME_CORR =
  ui64OSTimeStamp :: IMG_UINT64
  ui64OSMonoTimeStamp :: IMG_UINT64
  ui64CRTimeStamp :: IMG_UINT64
  ui32CoreClockSpeed :: IMG_UINT32
  ui64CRDeltaToOSDeltaKNs :: IMG_UINT64

record RGXFWIF_GPU_UTIL_FWCB =
  sTimeCorr :: "RGXFWIF_TIME_CORR list"
  ui32TimeCorrSeqCount :: IMG_UINT32

text \<open>
  The build options, the macros of the missing headers and the functions of the host.
  A function of the host is read at the number of reads made so far (\<open>now\<close> below), so
  that successive reads may differ. \<open>OSClockMonotonicns64\<close> returns an error code and
  whatever is in the output variable afterwards.
\<close>

record platform =
  NO_HARDWARE :: bool
  SUPPORT_WORKLOAD_ESTIMATION :: bool
  DEBUG :: bool
  DRIVER_MODE_GUEST :: bool
  RGX_GPU_DVFS_GET_INDEX :: "IMG_UINT32 \<Rightarrow> IMG_UINT32"
  RGX_GPU_DVFS_FIRST_CALIBRATION_TIME_US :: IMG_UINT32
  RGX_GPU_DVFS_TRANSITION_CALIBRATION_TIME_US :: IMG_UINT32
  RGX_GPU_DVFS_PERIODIC_CALIBRATION_TIME_US :: IMG_UINT32
  RGXFWIF_GET_CRDELTA_TO_OSDELTA_K_NS :: "IMG_UINT32 \<Rightarrow> IMG_UINT64"
  RGXReadHWTimerReg :: "nat \<Rightarrow> IMG_UINT64"
  OSClockMonotonicns64 :: "nat \<Rightarrow> PVRSRV_ERROR \<times> IMG_UINT64"
  OSClockMonotonicRawns64 :: "nat \<Rightarrow> IMG_UINT64"
  OSClockns64 :: "nat \<Rightarrow> IMG_UINT64"

text \<open>
  The state: the global \<^verbatim>\<open>g_ui32ClockSource\<close>, what the functions reach from the device
  node (the DVFS table, the control block shared with the firmware, the nominal core
  clock speed of the timing information, the power lock and the power state), the
  number of reads of the host made so far and the calls made so far.
\<close>

record machine =
  g_ui32ClockSource :: IMG_UINT32
  psGpuDVFSTable :: RGX_GPU_DVFS_TABLE
  psRGXFWIfGpuUtilFWCb :: RGXFWIF_GPU_UTIL_FWCB
  psRGXTimingInfo_ui32CoreClockSpeed :: IMG_UINT32
  hPowerLock :: bool
  eDevPowerState :: PVRSRV_DEV_POWER_STATE
  now :: nat
  calls :: "call list"

subsection \<open>Constants and macros of the missing headers\<close>

text \<open>
  Modelled from the spec: the enumeration \<^verbatim>\<open>RGXTIMECORR_CLOCK_TYPE\<close> is declared in
  \<^verbatim>\<open>rgxtimecorr.h\<close>, which is missing. The spec names the values mono, mono_raw and
  sched, in the order of the array \<^verbatim>\<open>apszClocks\<close> of \<^verbatim>\<open>_SetClock\<close>.
\<close>

definition RGXTIMECORR_CLOCK_MONO :: IMG_UINT32 where
  "RGXTIMECORR_CLOCK_MONO = 0"

definition RGXTIMECORR_CLOCK_MONO_RAW :: IMG_UINT32 where
  "RGXTIMECORR_CLOCK_MONO_RAW = 1"

definition RGXTIMECORR_CLOCK_SCHED :: IMG_UINT32 where
  "RGXTIMECORR_CLOCK_SCHED = 2"

definition RGXTIMECORR_CLOCK_LAST :: IMG_UINT32 where
  "RGXTIMECORR_CLOCK_LAST = 3"

text \<open>
  Modelled from the spec: \<^verbatim>\<open>OSDivide64r64\<close> is a function of the host layer, which is
  missing. The spec has the microsecond reading "derived by integer-dividing the
  nanosecond reading by 1000, rounding down"; the divisor of the one call is 1000.
\<close>

definition OSDivide64r64 :: "IMG_UINT64 \<Rightarrow> IMG_UINT32 \<Rightarrow> fault + IMG_UINT64" where
  "OSDivide64r64 ui64Divident ui32Divisor =
     (if ui32Divisor = 0 then Inl DivisionByZero
      else Inr (ui64Divident div ucast ui32Divisor))"

text \<open>
  Modelled from the spec: the macro \<^verbatim>\<open>RGXFWIF_GET_GPU_CLOCK_FREQUENCY_HZ\<close> is defined in
  a missing header. The spec has "calibratedHz = accumulatedTicks * 1_000_000 /
  accumulatedHostTimeUs", with integer division. Both operands are 64 bit unsigned
  fields, so the product is taken in 64 bits; dividing by zero is undefined.
\<close>

definition RGXFWIF_GET_GPU_CLOCK_FREQUENCY_HZ :: "IMG_UINT64 \<Rightarrow> IMG_UINT64 \<Rightarrow> fault + IMG_UINT64" where
  "RGXFWIF_GET_GPU_CLOCK_FREQUENCY_HZ deltacr_us deltaos_us =
     (if deltaos_us = 0 then Inl DivisionByZero
      else Inr ((deltacr_us * 1000000) div deltaos_us))"

text \<open>
  Modelled from the spec: the macro \<^verbatim>\<open>RGXFWIF_TIME_CORR_CURR_INDEX\<close> is defined in a
  missing header. The spec has "slot = sequence mod ring size"; the ring size is the
  length of the array \<^verbatim>\<open>sTimeCorr\<close>.
\<close>

definition RGXFWIF_TIME_CORR_CURR_INDEX :: "RGXFWIF_GPU_UTIL_FWCB \<Rightarrow> IMG_UINT32 \<Rightarrow> nat" where
  "RGXFWIF_TIME_CORR_CURR_INDEX cb seqcount = unat seqcount mod length (sTimeCorr cb)"

text \<open>\<^verbatim>\<open>PVR_ASSERT\<close>: checked in a debug build only.\<close>

definition PVR_ASSERT :: "platform \<Rightarrow> bool \<Rightarrow> bool" where
  "PVR_ASSERT P b = (DEBUG P \<longrightarrow> b)"

subsection \<open>Reading the host\<close>

definition host_call :: "call \<Rightarrow> machine \<Rightarrow> machine" where
  "host_call c s = s\<lparr>calls := calls s @ [c]\<rparr>"

definition host_read :: "call \<Rightarrow> machine \<Rightarrow> machine" where
  "host_read c s = s\<lparr>now := Suc (now s), calls := calls s @ [c]\<rparr>"

definition RGXGPUFreqCalibrateClockns64 :: "platform \<Rightarrow> machine \<Rightarrow> fault + (IMG_UINT64 \<times> machine)" where
  "RGXGPUFreqCalibrateClockns64 P s =
     (if g_ui32ClockSource s = RGXTIMECORR_CLOCK_MONO then
        Inr (snd (OSClockMonotonicns64 P (now s)), host_read Call_OSClockMonotonicns64 s)
      else if g_ui32ClockSource s = RGXTIMECORR_CLOCK_MONO_RAW then
        Inr (OSClockMonotonicRawns64 P (now s), host_read Call_OSClockMonotonicRawns64 s)
      else if g_ui32ClockSource s = RGXTIMECORR_CLOCK_SCHED then
        Inr (OSClockns64 P (now s), host_read Call_OSClockns64 s)
      else if PVR_ASSERT P False then Inr (0, s)
      else Inl AssertionFailed)"

definition RGXGPUFreqCalibrateClockus64 :: "platform \<Rightarrow> machine \<Rightarrow> fault + (IMG_UINT64 \<times> machine)" where
  "RGXGPUFreqCalibrateClockus64 P s =
     (case RGXGPUFreqCalibrateClockns64 P s of
        Inl e \<Rightarrow> Inl e
      | Inr (ns, s1) \<Rightarrow>
          (case OSDivide64r64 ns 1000 of
             Inl e \<Rightarrow> Inl e
           | Inr us \<Rightarrow> Inr (us, s1)))"

subsection \<open>The correlation record\<close>

definition RGXMakeTimeCorrData :: "platform \<Rightarrow> bool \<Rightarrow> machine \<Rightarrow> fault + machine" where
  "RGXMakeTimeCorrData P bLogToHTB s =
     (let tbl = psGpuDVFSTable s in
      if \<not> unat (ui32CurrentDVFSId tbl) < length (aui32DVFSClock tbl) then Inl IndexOutOfBounds
      else
        let ui32CoreClockSpeed' = aui32DVFSClock tbl ! unat (ui32CurrentDVFSId tbl);
            mono = OSClockMonotonicns64 P (now s);
            s1 = (if SUPPORT_WORKLOAD_ESTIMATION P then host_read Call_OSClockMonotonicns64 s else s)
        in
        if SUPPORT_WORKLOAD_ESTIMATION P \<and> fst mono \<noteq> PVRSRV_OK \<and> \<not> PVR_ASSERT P (fst mono = PVRSRV_OK)
        then Inl AssertionFailed
        else
          let cb = psRGXFWIfGpuUtilFWCb s1;
              ui32NewSeqCount = ui32TimeCorrSeqCount cb + 1
          in
          if sTimeCorr cb = [] then Inl IndexOutOfBounds
          else
            let slot = RGXFWIF_TIME_CORR_CURR_INDEX cb ui32NewSeqCount;
                cr = RGXReadHWTimerReg P (now s1);
                s2 = host_read Call_RGXReadHWTimerReg s1
            in
            (case RGXGPUFreqCalibrateClockns64 P s2 of
               Inl e \<Rightarrow> Inl e
             | Inr (os, s3) \<Rightarrow>
                 let old = sTimeCorr cb ! slot;
                     psTimeCorr = old\<lparr>
                       ui64CRTimeStamp := cr,
                       ui64OSTimeStamp := os,
                       ui64OSMonoTimeStamp :=
                         (if SUPPORT_WORKLOAD_ESTIMATION P then snd mono else ui64OSMonoTimeStamp old),
                       ui32CoreClockSpeed := ui32CoreClockSpeed',
                       ui64CRDeltaToOSDeltaKNs := RGXFWIF_GET_CRDELTA_TO_OSDELTA_K_NS P ui32CoreClockSpeed'\<rparr>;
                     cb' = cb\<lparr>sTimeCorr := (sTimeCorr cb)[slot := psTimeCorr],
                              ui32TimeCorrSeqCount := ui32NewSeqCount\<rparr>
                 in Inr (host_call
                           (Call_HTBSyncScale bLogToHTB os cr ui32CoreClockSpeed')
                           (s3\<lparr>psRGXFWIfGpuUtilFWCb := cb'\<rparr>))))"

subsection \<open>The calibration period\<close>

definition RGXGPUFreqCalibrationPeriodStart :: "platform \<Rightarrow> machine \<Rightarrow> fault + machine" where
  "RGXGPUFreqCalibrationPeriodStart P s =
     (let ui32CoreClockSpeed' = psRGXTimingInfo_ui32CoreClockSpeed s;
          ui32Index = RGX_GPU_DVFS_GET_INDEX P ui32CoreClockSpeed';
          ui64CRTimestamp = RGXReadHWTimerReg P (now s);
          s1 = host_read Call_RGXReadHWTimerReg s
      in
      case RGXGPUFreqCalibrateClockus64 P s1 of
        Inl e \<Rightarrow> Inl e
      | Inr (ui64OSTimestamp, s2) \<Rightarrow>
          let t1 = (psGpuDVFSTable s2)\<lparr>
                     ui64CalibrationCRTimestamp := ui64CRTimestamp,
                     ui64CalibrationOSTimestamp := ui64OSTimestamp\<rparr>
          in
          if \<not> unat ui32Index < length (aui32DVFSClock t1) then Inl IndexOutOfBounds
          else
            let t2 =
                  (if aui32DVFSClock t1 ! unat ui32Index = 0 \<or>
                      aui32DVFSClock t1 ! unat ui32Index = ui32CoreClockSpeed'
                   then t1\<lparr>
                          aui32DVFSClock := (aui32DVFSClock t1)[unat ui32Index := ui32CoreClockSpeed'],
                          ui32CalibrationPeriod := RGX_GPU_DVFS_FIRST_CALIBRATION_TIME_US P\<rparr>
                   else if ui32CalibrationPeriod t1 = RGX_GPU_DVFS_FIRST_CALIBRATION_TIME_US P
                   then t1\<lparr>ui32CalibrationPeriod := RGX_GPU_DVFS_TRANSITION_CALIBRATION_TIME_US P\<rparr>
                   else t1\<lparr>ui32CalibrationPeriod := RGX_GPU_DVFS_PERIODIC_CALIBRATION_TIME_US P\<rparr>)
            in Inr (s2\<lparr>psGpuDVFSTable := t2\<lparr>ui32CurrentDVFSId := ui32Index\<rparr>\<rparr>))"

definition RGXGPUFreqCalibrationPeriodStop :: "platform \<Rightarrow> machine \<Rightarrow> fault + machine" where
  "RGXGPUFreqCalibrationPeriodStop P s =
     (let ui64CRTimestamp = RGXReadHWTimerReg P (now s);
          s1 = host_read Call_RGXReadHWTimerReg s
      in
      case RGXGPUFreqCalibrateClockus64 P s1 of
        Inl e \<Rightarrow> Inl e
      | Inr (ui64OSTimestamp, s2) \<Rightarrow>
          let t0 = psGpuDVFSTable s2;
              t1 = (if \<not> bAccumulatePeriod t0
                    then t0\<lparr>ui64CalibrationCRTimediff := 0, ui64CalibrationOSTimediff := 0\<rparr>
                    else t0);
              t2 = t1\<lparr>
                     ui64CalibrationCRTimediff :=
                       ui64CalibrationCRTimediff t1 + (ui64CRTimestamp - ui64CalibrationCRTimestamp t1),
                     ui64CalibrationOSTimediff :=
                       ui64CalibrationOSTimediff t1 + (ui64OSTimestamp - ui64CalibrationOSTimestamp t1)\<rparr>
          in Inr (s2\<lparr>psGpuDVFSTable := t2\<rparr>))"

definition RGXGPUFreqCalibrationCalculate :: "platform \<Rightarrow> machine \<Rightarrow> fault + (IMG_UINT32 \<times> machine)" where
  "RGXGPUFreqCalibrationCalculate P s =
     (let tbl = psGpuDVFSTable s in
      if \<not> NO_HARDWARE P then
        (case RGXFWIF_GET_GPU_CLOCK_FREQUENCY_HZ
                (ui64CalibrationCRTimediff tbl) (ui64CalibrationOSTimediff tbl) of
           Inl e \<Rightarrow> Inl e
         | Inr hz \<Rightarrow>
             let ui32CalibratedClockSpeed = (ucast hz :: IMG_UINT32) in
             if \<not> unat (ui32CurrentDVFSId tbl) < length (aui32DVFSClock tbl) then Inl IndexOutOfBounds
             else Inr (ui32CalibratedClockSpeed,
                       s\<lparr>psGpuDVFSTable := tbl\<lparr>
                            aui32DVFSClock :=
                              (aui32DVFSClock tbl)[unat (ui32CurrentDVFSId tbl) := ui32CalibratedClockSpeed],
                            ui64CalibrationCRTimediff := 0,
                            ui64CalibrationOSTimediff := 0\<rparr>\<rparr>))
      else if \<not> unat (ui32CurrentDVFSId tbl) < length (aui32DVFSClock tbl) then Inl IndexOutOfBounds
      else Inr (aui32DVFSClock tbl ! unat (ui32CurrentDVFSId tbl), s))"

subsection \<open>The hooks\<close>

definition RGXGPUFreqCalibratePreClockSourceChange :: "platform \<Rightarrow> machine \<Rightarrow> fault + machine" where
  "RGXGPUFreqCalibratePreClockSourceChange P s =
     (if DRIVER_MODE_GUEST P then Inr s
      else
        case RGXGPUFreqCalibrationPeriodStop P s of
          Inl e \<Rightarrow> Inl e
        | Inr s1 \<Rightarrow>
            if ucast (ui32CalibrationPeriod (psGpuDVFSTable s1))
                 \<le> ui64CalibrationOSTimediff (psGpuDVFSTable s1)
            then (case RGXGPUFreqCalibrationCalculate P s1 of
                    Inl e \<Rightarrow> Inl e
                  | Inr (hz, s2) \<Rightarrow> Inr s2)
            else Inr s1)"

definition RGXGPUFreqCalibratePostClockSourceChange :: "platform \<Rightarrow> machine \<Rightarrow> fault + machine" where
  "RGXGPUFreqCalibratePostClockSourceChange P s =
     (if DRIVER_MODE_GUEST P then Inr s
      else
        let s1 = s\<lparr>psGpuDVFSTable := (psGpuDVFSTable s)\<lparr>bAccumulatePeriod := True\<rparr>\<rparr> in
        case RGXGPUFreqCalibrationPeriodStart P s1 of
          Inl e \<Rightarrow> Inl e
        | Inr s2 \<Rightarrow> RGXMakeTimeCorrData P True s2)"

definition SetClock :: "platform \<Rightarrow> IMG_UINT32 \<Rightarrow> machine \<Rightarrow> fault + (PVRSRV_ERROR \<times> machine)" where
  "SetClock P ui32Value s =
     (if RGXTIMECORR_CLOCK_LAST \<le> ui32Value then Inr (PVRSRV_ERROR_INVALID_PARAMS, s)
      else
        case RGXGPUFreqCalibratePreClockSourceChange P s of
          Inl e \<Rightarrow> Inl e
        | Inr s1 \<Rightarrow>
            let s2 = s1\<lparr>g_ui32ClockSource := ui32Value\<rparr> in
            (case RGXGPUFreqCalibratePostClockSourceChange P s2 of
               Inl e \<Rightarrow> Inl e
             | Inr s3 \<Rightarrow> Inr (PVRSRV_OK, s3)))"

definition GetClock :: "machine \<Rightarrow> PVRSRV_ERROR \<times> IMG_UINT32" where
  "GetClock s = (PVRSRV_OK, g_ui32ClockSource s)"

definition RGXGPUFreqCalibratePreClockSpeedChange :: "platform \<Rightarrow> machine \<Rightarrow> fault + machine" where
  "RGXGPUFreqCalibratePreClockSpeedChange P s =
     (if DRIVER_MODE_GUEST P then Inr s
      else RGXGPUFreqCalibrationPeriodStop P s)"

definition RGXGPUFreqCalibratePostClockSpeedChange ::
    "platform \<Rightarrow> IMG_UINT32 \<Rightarrow> machine \<Rightarrow> fault + (IMG_UINT32 \<times> machine)" where
  "RGXGPUFreqCalibratePostClockSpeedChange P ui32NewClockSpeed s =
     (if DRIVER_MODE_GUEST P then Inr (ui32NewClockSpeed, s)
      else if RGX_GPU_DVFS_GET_INDEX P ui32NewClockSpeed \<noteq> ui32CurrentDVFSId (psGpuDVFSTable s) then
        (case (if ucast (RGX_GPU_DVFS_TRANSITION_CALIBRATION_TIME_US P)
                    \<le> ui64CalibrationOSTimediff (psGpuDVFSTable s)
               then RGXGPUFreqCalibrationCalculate P s
               else Inr (ui32NewClockSpeed, s)) of
           Inl e \<Rightarrow> Inl e
         | Inr (ui32ReturnedClockSpeed, s1) \<Rightarrow>
             (case RGXGPUFreqCalibrationPeriodStart P s1 of
                Inl e \<Rightarrow> Inl e
              | Inr s2 \<Rightarrow>
                  (case RGXMakeTimeCorrData P True s2 of
                     Inl e \<Rightarrow> Inl e
                   | Inr s3 \<Rightarrow>
                       Inr (ui32ReturnedClockSpeed,
                            s3\<lparr>psGpuDVFSTable := (psGpuDVFSTable s3)\<lparr>bAccumulatePeriod := False\<rparr>\<rparr>))))
      else Inr (ui32NewClockSpeed,
                s\<lparr>psGpuDVFSTable := (psGpuDVFSTable s)\<lparr>bAccumulatePeriod := True\<rparr>\<rparr>))"

definition RGXGPUFreqCalibrateCorrelatePeriodic :: "platform \<Rightarrow> machine \<Rightarrow> fault + machine" where
  "RGXGPUFreqCalibrateCorrelatePeriodic P s =
     (case RGXGPUFreqCalibrateClockus64 P s of
        Inl e \<Rightarrow> Inl e
      | Inr (ui64TimeNow, s1) \<Rightarrow>
          if DRIVER_MODE_GUEST P then Inr s1
          else if ui64TimeNow - ui64CalibrationOSTimestamp (psGpuDVFSTable s1)
                    < ucast (ui32CalibrationPeriod (psGpuDVFSTable s1)) then Inr s1
          else if hPowerLock s1 then Inr (host_call (Call_OSTryLockAcquire False) s1)
          else
            let s2 = host_call (Call_OSTryLockAcquire True) (s1\<lparr>hPowerLock := True\<rparr>);
                ePowerState = eDevPowerState s2;
                s3 = host_call Call_PVRSRVGetDevicePowerState s2
            in
            if ePowerState \<noteq> PVRSRV_DEV_POWER_STATE_ON
            then Inr (host_call Call_PVRSRVPowerUnlock (s3\<lparr>hPowerLock := False\<rparr>))
            else
              (case RGXGPUFreqCalibrationPeriodStop P s3 of
                 Inl e \<Rightarrow> Inl e
               | Inr s4 \<Rightarrow>
                   (case RGXGPUFreqCalibrationCalculate P s4 of
                      Inl e \<Rightarrow> Inl e
                    | Inr (hz, s5) \<Rightarrow>
                        (case RGXGPUFreqCalibrationPeriodStart P s5 of
                           Inl e \<Rightarrow> Inl e
                         | Inr s6 \<Rightarrow>
                             (case RGXMakeTimeCorrData P True s6 of
                                Inl e \<Rightarrow> Inl e
                              | Inr s7 \<Rightarrow>
                                  Inr (host_call Call_PVRSRVPowerUnlock
                                         (s7\<lparr>hPowerLock := False\<rparr>)))))))"

subsection \<open>An example platform and an example state\<close>

text \<open>
  A build with hardware access on the host that owns the device, buckets of 10 MHz,
  a hardware timer and three host clocks that advance with every read, and a DVFS table
  of 100 rows in which only the row of 100 MHz is known.
\<close>

definition example_platform :: platform where
  "example_platform = \<lparr>
     NO_HARDWARE = False,
     SUPPORT_WORKLOAD_ESTIMATION = False,
     DEBUG = True,
     DRIVER_MODE_GUEST = False,
     RGX_GPU_DVFS_GET_INDEX = (\<lambda>clockfreq. clockfreq div 10000000),
     RGX_GPU_DVFS_FIRST_CALIBRATION_TIME_US = 25000,
     RGX_GPU_DVFS_TRANSITION_CALIBRATION_TIME_US = 150000,
     RGX_GPU_DVFS_PERIODIC_CALIBRATION_TIME_US = 10000000,
     RGXFWIF_GET_CRDELTA_TO_OSDELTA_K_NS = (\<lambda>clockfreq. ucast clockfreq),
     RGXReadHWTimerReg = (\<lambda>n. 1000 + 500 * of_nat n),
     OSClockMonotonicns64 = (\<lambda>n. (PVRSRV_OK, 7000000 + 2000 * of_nat n)),
     OSClockMonotonicRawns64 = (\<lambda>n. 8000000 + 2000 * of_nat n),
     OSClockns64 = (\<lambda>n. 9000000 + 2000 * of_nat n)\<rparr>"

definition example_table :: RGX_GPU_DVFS_TABLE where
  "example_table = \<lparr>
     aui32DVFSClock = (replicate 100 0)[10 := 100000000],
     ui32CurrentDVFSId = 10,
     ui64CalibrationCRTimestamp = 400,
     ui64CalibrationOSTimestamp = 6000,
     ui64CalibrationCRTimediff = 0,
     ui64CalibrationOSTimediff = 0,
     ui32CalibrationPeriod = 25000,
     bAccumulatePeriod = False\<rparr>"

definition example_record :: RGXFWIF_TIME_CORR where
  "example_record = \<lparr>
     ui64OSTimeStamp = 0,
     ui64OSMonoTimeStamp = 0,
     ui64CRTimeStamp = 0,
     ui32CoreClockSpeed = 0,
     ui64CRDeltaToOSDeltaKNs = 0\<rparr>"

definition example_machine :: machine where
  "example_machine = \<lparr>
     g_ui32ClockSource = 0,
     psGpuDVFSTable = example_table,
     psRGXFWIfGpuUtilFWCb = \<lparr>sTimeCorr = replicate 4 example_record, ui32TimeCorrSeqCount = 0\<rparr>,
     psRGXTimingInfo_ui32CoreClockSpeed = 100000000,
     hPowerLock = False,
     eDevPowerState = PVRSRV_DEV_POWER_STATE_ON,
     now = 0,
     calls = []\<rparr>"

subsection \<open>Vocabulary of the statements\<close>

text \<open>
  The call that the accessor of the host time makes for a value of the selector (none
  for a value outside the enumeration), and the nanoseconds it returns when that call
  is the \<open>n\<close>-th read of the host.
\<close>

definition clock_call :: "IMG_UINT32 \<Rightarrow> call list" where
  "clock_call src =
     (if src = RGXTIMECORR_CLOCK_MONO then [Call_OSClockMonotonicns64]
      else if src = RGXTIMECORR_CLOCK_MONO_RAW then [Call_OSClockMonotonicRawns64]
      else if src = RGXTIMECORR_CLOCK_SCHED then [Call_OSClockns64]
      else [])"

definition clock_ns :: "platform \<Rightarrow> IMG_UINT32 \<Rightarrow> nat \<Rightarrow> IMG_UINT64" where
  "clock_ns P src n =
     (if src = RGXTIMECORR_CLOCK_MONO then snd (OSClockMonotonicns64 P n)
      else if src = RGXTIMECORR_CLOCK_MONO_RAW then OSClockMonotonicRawns64 P n
      else if src = RGXTIMECORR_CLOCK_SCHED then OSClockns64 P n
      else 0)"

definition clock_us :: "platform \<Rightarrow> IMG_UINT32 \<Rightarrow> nat \<Rightarrow> IMG_UINT64" where
  "clock_us P src n = clock_ns P src n div 1000"

text \<open>The accessor returns: the selector is in the enumeration, or assertions are off.\<close>

definition clock_defined :: "platform \<Rightarrow> machine \<Rightarrow> bool" where
  "clock_defined P s = (g_ui32ClockSource s < RGXTIMECORR_CLOCK_LAST \<or> \<not> DEBUG P)"

text \<open>The state after the accessor has returned.\<close>

definition after_clock :: "machine \<Rightarrow> machine" where
  "after_clock s = s\<lparr>now := now s + length (clock_call (g_ui32ClockSource s)),
                      calls := calls s @ clock_call (g_ui32ClockSource s)\<rparr>"

text \<open>
  The deltas that a Stop in state \<open>s\<close> measures: the hardware ticks and the host
  microseconds since the window opened, in 64 bit arithmetic.
\<close>

definition stop_deltas :: "platform \<Rightarrow> machine \<Rightarrow> IMG_UINT64 \<times> IMG_UINT64" where
  "stop_deltas P s =
     (RGXReadHWTimerReg P (now s) - ui64CalibrationCRTimestamp (psGpuDVFSTable s),
      clock_us P (g_ui32ClockSource s) (Suc (now s)) - ui64CalibrationOSTimestamp (psGpuDVFSTable s))"

definition accumulators :: "machine \<Rightarrow> IMG_UINT64 \<times> IMG_UINT64" where
  "accumulators s =
     (ui64CalibrationCRTimediff (psGpuDVFSTable s), ui64CalibrationOSTimediff (psGpuDVFSTable s))"

definition set_accumulate :: "bool \<Rightarrow> machine \<Rightarrow> machine" where
  "set_accumulate b s = s\<lparr>psGpuDVFSTable := (psGpuDVFSTable s)\<lparr>bAccumulatePeriod := b\<rparr>\<rparr>"

text \<open>Two Stop calls in a row, nothing between them.\<close>

definition two_stops :: "platform \<Rightarrow> machine \<Rightarrow> fault + machine" where
  "two_stops P s =
     (case RGXGPUFreqCalibrationPeriodStop P s of
        Inl e \<Rightarrow> Inl e
      | Inr s1 \<Rightarrow> RGXGPUFreqCalibrationPeriodStop P s1)"

text \<open>
  Under \<^verbatim>\<open>SUPPORT_WORKLOAD_ESTIMATION\<close> the record writer reads the monotonic clock
  itself, and asserts that the read succeeded.
\<close>

definition workload_call :: "platform \<Rightarrow> call list" where
  "workload_call P = (if SUPPORT_WORKLOAD_ESTIMATION P then [Call_OSClockMonotonicns64] else [])"

definition workload_clock_ok :: "platform \<Rightarrow> nat \<Rightarrow> bool" where
  "workload_clock_ok P n =
     (SUPPORT_WORKLOAD_ESTIMATION P \<longrightarrow> PVR_ASSERT P (fst (OSClockMonotonicns64 P n) = PVRSRV_OK))"

text \<open>The slot of the ring that the next record goes to.\<close>

definition next_slot :: "machine \<Rightarrow> nat" where
  "next_slot s =
     RGXFWIF_TIME_CORR_CURR_INDEX (psRGXFWIfGpuUtilFWCb s)
       (ui32TimeCorrSeqCount (psRGXFWIfGpuUtilFWCb s) + 1)"

text \<open>The sequence counter and a slot of the ring shared with the firmware.\<close>

definition seq_count :: "machine \<Rightarrow> IMG_UINT32" where
  "seq_count s = ui32TimeCorrSeqCount (psRGXFWIfGpuUtilFWCb s)"

definition time_corr :: "nat \<Rightarrow> machine \<Rightarrow> RGXFWIF_TIME_CORR" where
  "time_corr i s = sTimeCorr (psRGXFWIfGpuUtilFWCb s) ! i"

text \<open>
  States for the examples below: accumulators of 100 000 000 ticks over 100 000
  microseconds, and accumulators of 5000 ticks over one microsecond.
\<close>

definition calibration_machine :: machine where
  "calibration_machine = example_machine\<lparr>psGpuDVFSTable := example_table\<lparr>
      ui64CalibrationCRTimediff := 100000000, ui64CalibrationOSTimediff := 100000\<rparr>\<rparr>"

definition overflow_machine :: machine where
  "overflow_machine = example_machine\<lparr>psGpuDVFSTable := example_table\<lparr>
      ui64CalibrationCRTimediff := 5000, ui64CalibrationOSTimediff := 1\<rparr>\<rparr>"

text \<open>
  A state whose accumulators hold 7 ticks and 9 microseconds of an earlier window, with
  the accumulate flag set.
\<close>

definition merged_machine :: machine where
  "merged_machine = example_machine\<lparr>psGpuDVFSTable := example_table\<lparr>
      ui64CalibrationCRTimediff := 7, ui64CalibrationOSTimediff := 9, bAccumulatePeriod := True\<rparr>\<rparr>"


text \<open>
  States in which the periodic calibration is due (the target is 500 microseconds): one
  with the power lock held by somebody else, one with the device powered off.
\<close>

definition due_locked_machine :: machine where
  "due_locked_machine = example_machine\<lparr>
      psGpuDVFSTable := example_table\<lparr>ui32CalibrationPeriod := 500\<rparr>,
      hPowerLock := True\<rparr>"

definition due_off_machine :: machine where
  "due_off_machine = example_machine\<lparr>
      psGpuDVFSTable := example_table\<lparr>ui32CalibrationPeriod := 500\<rparr>,
      eDevPowerState := PVRSRV_DEV_POWER_STATE_OFF\<rparr>"

text \<open>A state in which the row of 100 MHz holds a calibrated value.\<close>

definition calibrated_machine :: machine where
  "calibrated_machine = example_machine\<lparr>psGpuDVFSTable := example_table\<lparr>
      aui32DVFSClock := (replicate 100 0)[10 := 99999000]\<rparr>\<rparr>"

text \<open>
  Start followed by the record writer is defined in state \<open>s\<close>: the clock accessor
  returns, the bucket of the nominal clock speed is inside the table, the ring is not
  empty and the assertion on the monotonic clock (made after the two reads of Start)
  holds.
\<close>

definition window_defined :: "platform \<Rightarrow> machine \<Rightarrow> bool" where
  "window_defined P s =
     (clock_defined P s
      \<and> unat (RGX_GPU_DVFS_GET_INDEX P (psRGXTimingInfo_ui32CoreClockSpeed s))
          < length (aui32DVFSClock (psGpuDVFSTable s))
      \<and> sTimeCorr (psRGXFWIfGpuUtilFWCb s) \<noteq> []
      \<and> workload_clock_ok P (Suc (now s + length (clock_call (g_ui32ClockSource s)))))"

definition current_index :: "machine \<Rightarrow> IMG_UINT32" where
  "current_index s = ui32CurrentDVFSId (psGpuDVFSTable s)"

definition known_clocks :: "machine \<Rightarrow> IMG_UINT32 list" where
  "known_clocks s = aui32DVFSClock (psGpuDVFSTable s)"

text \<open>
  A state after a window of 19 980 000 ticks over 200 000 microseconds in the bucket of
  100 MHz, with the nominal clock speed now at 200 MHz.
\<close>

definition transition_machine :: machine where
  "transition_machine = example_machine\<lparr>
      psGpuDVFSTable := example_table\<lparr>
        ui64CalibrationCRTimediff := 19980000, ui64CalibrationOSTimediff := 200000\<rparr>,
      psRGXTimingInfo_ui32CoreClockSpeed := 200000000\<rparr>"

text \<open>The same with a window of 1000 microseconds only.\<close>

definition short_window_machine :: machine where
  "short_window_machine = example_machine\<lparr>
      psGpuDVFSTable := example_table\<lparr>
        ui64CalibrationCRTimediff := 99900, ui64CalibrationOSTimediff := 1000\<rparr>,
      psRGXTimingInfo_ui32CoreClockSpeed := 200000000\<rparr>"

text \<open>
  A state in which the window about to be stopped completes the calibration target: the
  accumulators hold 2 496 900 ticks and 23 998 microseconds and the accumulate flag is set.
\<close>

definition calibration_due_machine :: machine where
  "calibration_due_machine = example_machine\<lparr>psGpuDVFSTable := example_table\<lparr>
      ui64CalibrationCRTimediff := 2496900, ui64CalibrationOSTimediff := 23998,
      bAccumulatePeriod := True\<rparr>\<rparr>"



section \<open>Properties\<close>

subsection \<open>What each function does when it returns\<close>

lemma word_less_3: "(w :: 32 word) < 3 \<longleftrightarrow> w = 0 \<or> w = 1 \<or> w = 2"
proof -
  have a: "w < 3 \<longleftrightarrow> unat w < 3"
    by (simp add: word_less_nat_alt)
  have b: "unat w < 3 \<longleftrightarrow> unat w = 0 \<or> unat w = 1 \<or> unat w = 2"
    by arith
  have c: "w = 0 \<longleftrightarrow> unat w = 0" "w = 1 \<longleftrightarrow> unat w = 1" "w = 2 \<longleftrightarrow> unat w = 2"
    by (simp_all add: word_unat_eq_iff)
  show ?thesis
    unfolding a b c ..
qed

lemma Clockns64_Inr:
  "RGXGPUFreqCalibrateClockns64 P s = Inr (v, s1) \<longleftrightarrow>
     clock_defined P s \<and> v = clock_ns P (g_ui32ClockSource s) (now s) \<and> s1 = after_clock s"
  by (auto simp: RGXGPUFreqCalibrateClockns64_def clock_defined_def clock_ns_def after_clock_def
      clock_call_def host_read_def PVR_ASSERT_def RGXTIMECORR_CLOCK_LAST_def
      RGXTIMECORR_CLOCK_MONO_def RGXTIMECORR_CLOCK_MONO_RAW_def RGXTIMECORR_CLOCK_SCHED_def word_less_3)

lemma Clockns64_defined:
  "clock_defined P s \<Longrightarrow>
   RGXGPUFreqCalibrateClockns64 P s = Inr (clock_ns P (g_ui32ClockSource s) (now s), after_clock s)"
  by (simp add: Clockns64_Inr)

lemma Clockns64_Inl:
  "\<not> clock_defined P s \<Longrightarrow> RGXGPUFreqCalibrateClockns64 P s = Inl AssertionFailed"
  by (auto simp: RGXGPUFreqCalibrateClockns64_def clock_defined_def PVR_ASSERT_def RGXTIMECORR_CLOCK_LAST_def
      RGXTIMECORR_CLOCK_MONO_def RGXTIMECORR_CLOCK_MONO_RAW_def RGXTIMECORR_CLOCK_SCHED_def word_less_3)

lemma Clockus64_defined:
  "clock_defined P s \<Longrightarrow>
   RGXGPUFreqCalibrateClockus64 P s = Inr (clock_us P (g_ui32ClockSource s) (now s), after_clock s)"
  by (simp add: RGXGPUFreqCalibrateClockus64_def Clockns64_defined OSDivide64r64_def clock_us_def)

lemma Clockus64_Inl:
  "\<not> clock_defined P s \<Longrightarrow> RGXGPUFreqCalibrateClockus64 P s = Inl AssertionFailed"
  by (simp add: RGXGPUFreqCalibrateClockus64_def Clockns64_Inl)


lemma clock_defined_frame [simp]:
  "clock_defined P (host_read c s) = clock_defined P s"
  "clock_defined P (host_call c s) = clock_defined P s"
  "clock_defined P (after_clock s) = clock_defined P s"
  "clock_defined P (s\<lparr>psGpuDVFSTable := t\<rparr>) = clock_defined P s"
  "clock_defined P (s\<lparr>psRGXFWIfGpuUtilFWCb := cb\<rparr>) = clock_defined P s"
  "clock_defined P (s\<lparr>hPowerLock := l\<rparr>) = clock_defined P s"
  by (simp_all add: clock_defined_def host_read_def host_call_def after_clock_def)

lemma host_read_sel [simp]:
  "g_ui32ClockSource (host_read c s) = g_ui32ClockSource s"
  "psGpuDVFSTable (host_read c s) = psGpuDVFSTable s"
  "psRGXFWIfGpuUtilFWCb (host_read c s) = psRGXFWIfGpuUtilFWCb s"
  "psRGXTimingInfo_ui32CoreClockSpeed (host_read c s) = psRGXTimingInfo_ui32CoreClockSpeed s"
  "hPowerLock (host_read c s) = hPowerLock s"
  "eDevPowerState (host_read c s) = eDevPowerState s"
  "now (host_read c s) = Suc (now s)"
  "calls (host_read c s) = calls s @ [c]"
  by (simp_all add: host_read_def)

lemma host_call_sel [simp]:
  "g_ui32ClockSource (host_call c s) = g_ui32ClockSource s"
  "psGpuDVFSTable (host_call c s) = psGpuDVFSTable s"
  "psRGXFWIfGpuUtilFWCb (host_call c s) = psRGXFWIfGpuUtilFWCb s"
  "psRGXTimingInfo_ui32CoreClockSpeed (host_call c s) = psRGXTimingInfo_ui32CoreClockSpeed s"
  "hPowerLock (host_call c s) = hPowerLock s"
  "eDevPowerState (host_call c s) = eDevPowerState s"
  "now (host_call c s) = now s"
  "calls (host_call c s) = calls s @ [c]"
  by (simp_all add: host_call_def)

lemma after_clock_sel [simp]:
  "g_ui32ClockSource (after_clock s) = g_ui32ClockSource s"
  "psGpuDVFSTable (after_clock s) = psGpuDVFSTable s"
  "psRGXFWIfGpuUtilFWCb (after_clock s) = psRGXFWIfGpuUtilFWCb s"
  "psRGXTimingInfo_ui32CoreClockSpeed (after_clock s) = psRGXTimingInfo_ui32CoreClockSpeed s"
  "hPowerLock (after_clock s) = hPowerLock s"
  "eDevPowerState (after_clock s) = eDevPowerState s"
  "now (after_clock s) = now s + length (clock_call (g_ui32ClockSource s))"
  "calls (after_clock s) = calls s @ clock_call (g_ui32ClockSource s)"
  by (simp_all add: after_clock_def)

lemma Stop_defined:
  assumes "clock_defined P s"
  shows "RGXGPUFreqCalibrationPeriodStop P s =
     Inr ((after_clock (host_read Call_RGXReadHWTimerReg s))\<lparr>psGpuDVFSTable := (psGpuDVFSTable s)\<lparr>
        ui64CalibrationCRTimediff :=
          (if bAccumulatePeriod (psGpuDVFSTable s) then ui64CalibrationCRTimediff (psGpuDVFSTable s) else 0)
            + fst (stop_deltas P s),
        ui64CalibrationOSTimediff :=
          (if bAccumulatePeriod (psGpuDVFSTable s) then ui64CalibrationOSTimediff (psGpuDVFSTable s) else 0)
            + snd (stop_deltas P s)\<rparr>\<rparr>)"
  using assms
  by (simp add: RGXGPUFreqCalibrationPeriodStop_def Clockus64_defined Let_def stop_deltas_def)

lemma Stop_Inl:
  "\<not> clock_defined P s \<Longrightarrow> RGXGPUFreqCalibrationPeriodStop P s = Inl AssertionFailed"
  by (simp add: RGXGPUFreqCalibrationPeriodStop_def Clockus64_Inl Let_def)

lemma Start_defined:
  assumes "clock_defined P s"
    and "unat (RGX_GPU_DVFS_GET_INDEX P (psRGXTimingInfo_ui32CoreClockSpeed s))
           < length (aui32DVFSClock (psGpuDVFSTable s))"
  shows "RGXGPUFreqCalibrationPeriodStart P s =
     Inr ((after_clock (host_read Call_RGXReadHWTimerReg s))\<lparr>psGpuDVFSTable := (psGpuDVFSTable s)\<lparr>
        ui64CalibrationCRTimestamp := RGXReadHWTimerReg P (now s),
        ui64CalibrationOSTimestamp := clock_us P (g_ui32ClockSource s) (Suc (now s)),
        aui32DVFSClock :=
          (if aui32DVFSClock (psGpuDVFSTable s)
                ! unat (RGX_GPU_DVFS_GET_INDEX P (psRGXTimingInfo_ui32CoreClockSpeed s)) = 0
            \<or> aui32DVFSClock (psGpuDVFSTable s)
                ! unat (RGX_GPU_DVFS_GET_INDEX P (psRGXTimingInfo_ui32CoreClockSpeed s))
              = psRGXTimingInfo_ui32CoreClockSpeed s
           then (aui32DVFSClock (psGpuDVFSTable s))
                  [unat (RGX_GPU_DVFS_GET_INDEX P (psRGXTimingInfo_ui32CoreClockSpeed s))
                     := psRGXTimingInfo_ui32CoreClockSpeed s]
           else aui32DVFSClock (psGpuDVFSTable s)),
        ui32CalibrationPeriod :=
          (if aui32DVFSClock (psGpuDVFSTable s)
                ! unat (RGX_GPU_DVFS_GET_INDEX P (psRGXTimingInfo_ui32CoreClockSpeed s)) = 0
            \<or> aui32DVFSClock (psGpuDVFSTable s)
                ! unat (RGX_GPU_DVFS_GET_INDEX P (psRGXTimingInfo_ui32CoreClockSpeed s))
              = psRGXTimingInfo_ui32CoreClockSpeed s
           then RGX_GPU_DVFS_FIRST_CALIBRATION_TIME_US P
           else if ui32CalibrationPeriod (psGpuDVFSTable s) = RGX_GPU_DVFS_FIRST_CALIBRATION_TIME_US P
           then RGX_GPU_DVFS_TRANSITION_CALIBRATION_TIME_US P
           else RGX_GPU_DVFS_PERIODIC_CALIBRATION_TIME_US P),
        ui32CurrentDVFSId := RGX_GPU_DVFS_GET_INDEX P (psRGXTimingInfo_ui32CoreClockSpeed s)\<rparr>\<rparr>)"
proof (cases "aui32DVFSClock (psGpuDVFSTable s)
                ! unat (RGX_GPU_DVFS_GET_INDEX P (psRGXTimingInfo_ui32CoreClockSpeed s)) = 0
            \<or> aui32DVFSClock (psGpuDVFSTable s)
                ! unat (RGX_GPU_DVFS_GET_INDEX P (psRGXTimingInfo_ui32CoreClockSpeed s))
              = psRGXTimingInfo_ui32CoreClockSpeed s")
  case True
  have "RGXGPUFreqCalibrateClockus64 P (host_read Call_RGXReadHWTimerReg s) =
        Inr (clock_us P (g_ui32ClockSource s) (Suc (now s)), after_clock (host_read Call_RGXReadHWTimerReg s))"
    using assms(1) by (simp add: Clockus64_defined)
  then show ?thesis
    using assms(2) True
    by (simp add: RGXGPUFreqCalibrationPeriodStart_def Let_def)
next
  case False
  have "RGXGPUFreqCalibrateClockus64 P (host_read Call_RGXReadHWTimerReg s) =
        Inr (clock_us P (g_ui32ClockSource s) (Suc (now s)), after_clock (host_read Call_RGXReadHWTimerReg s))"
    using assms(1) by (simp add: Clockus64_defined)
  then show ?thesis
    using assms(2) False
    by (simp add: RGXGPUFreqCalibrationPeriodStart_def Let_def)
qed


lemma Make_defined:
  assumes "clock_defined P s"
    and "unat (ui32CurrentDVFSId (psGpuDVFSTable s)) < length (aui32DVFSClock (psGpuDVFSTable s))"
    and "sTimeCorr (psRGXFWIfGpuUtilFWCb s) \<noteq> []"
    and "workload_clock_ok P (now s)"
  shows "\<exists>s'. RGXMakeTimeCorrData P b s = Inr s'
     \<and> ui32TimeCorrSeqCount (psRGXFWIfGpuUtilFWCb s') = ui32TimeCorrSeqCount (psRGXFWIfGpuUtilFWCb s) + 1
     \<and> sTimeCorr (psRGXFWIfGpuUtilFWCb s') = (sTimeCorr (psRGXFWIfGpuUtilFWCb s))[next_slot s := 
          (sTimeCorr (psRGXFWIfGpuUtilFWCb s) ! next_slot s)\<lparr>
             ui64CRTimeStamp := RGXReadHWTimerReg P (now s + length (workload_call P)),
             ui64OSTimeStamp := clock_ns P (g_ui32ClockSource s) (Suc (now s + length (workload_call P))),
             ui64OSMonoTimeStamp :=
               (if SUPPORT_WORKLOAD_ESTIMATION P then snd (OSClockMonotonicns64 P (now s))
                else ui64OSMonoTimeStamp (sTimeCorr (psRGXFWIfGpuUtilFWCb s) ! next_slot s)),
             ui32CoreClockSpeed :=
               aui32DVFSClock (psGpuDVFSTable s) ! unat (ui32CurrentDVFSId (psGpuDVFSTable s)),
             ui64CRDeltaToOSDeltaKNs := RGXFWIF_GET_CRDELTA_TO_OSDELTA_K_NS P
               (aui32DVFSClock (psGpuDVFSTable s) ! unat (ui32CurrentDVFSId (psGpuDVFSTable s)))\<rparr>]
     \<and> calls s' = calls s @ workload_call P @ [Call_RGXReadHWTimerReg] @ clock_call (g_ui32ClockSource s)
          @ [Call_HTBSyncScale b
               (clock_ns P (g_ui32ClockSource s) (Suc (now s + length (workload_call P))))
               (RGXReadHWTimerReg P (now s + length (workload_call P)))
               (aui32DVFSClock (psGpuDVFSTable s) ! unat (ui32CurrentDVFSId (psGpuDVFSTable s)))]
     \<and> psGpuDVFSTable s' = psGpuDVFSTable s
     \<and> g_ui32ClockSource s' = g_ui32ClockSource s
     \<and> psRGXTimingInfo_ui32CoreClockSpeed s' = psRGXTimingInfo_ui32CoreClockSpeed s
     \<and> hPowerLock s' = hPowerLock s
     \<and> eDevPowerState s' = eDevPowerState s"
proof (cases "SUPPORT_WORKLOAD_ESTIMATION P")
  case True
  have c: "RGXGPUFreqCalibrateClockns64 P
             (host_read Call_RGXReadHWTimerReg (host_read Call_OSClockMonotonicns64 s)) =
           Inr (clock_ns P (g_ui32ClockSource s) (Suc (Suc (now s))),
                after_clock (host_read Call_RGXReadHWTimerReg (host_read Call_OSClockMonotonicns64 s)))"
    using assms(1) by (simp add: Clockns64_defined)
  show ?thesis
    using assms(2-4) True
    by (simp add: RGXMakeTimeCorrData_def Let_def c workload_call_def workload_clock_ok_def
        next_slot_def PVR_ASSERT_def)
next
  case False
  have c: "RGXGPUFreqCalibrateClockns64 P (host_read Call_RGXReadHWTimerReg s) =
           Inr (clock_ns P (g_ui32ClockSource s) (Suc (now s)),
                after_clock (host_read Call_RGXReadHWTimerReg s))"
    using assms(1) by (simp add: Clockns64_defined)
  show ?thesis
    using assms(2-4) False
    by (simp add: RGXMakeTimeCorrData_def Let_def c workload_call_def workload_clock_ok_def
        next_slot_def)
qed

lemma stop_deltas_frame [simp]:
  "stop_deltas P (set_accumulate b s) = stop_deltas P s"
  by (simp add: stop_deltas_def set_accumulate_def)

lemma set_accumulate_sel [simp]:
  "bAccumulatePeriod (psGpuDVFSTable (set_accumulate b s)) = b"
  "accumulators (set_accumulate b s) = accumulators s"
  "clock_defined P (set_accumulate b s) = clock_defined P s"
  by (simp_all add: set_accumulate_def accumulators_def)

lemma Stop_accumulators:
  assumes "clock_defined P s"
  shows "\<exists>s1. RGXGPUFreqCalibrationPeriodStop P s = Inr s1
     \<and> accumulators s1 =
         (if bAccumulatePeriod (psGpuDVFSTable s)
          then (fst (accumulators s) + fst (stop_deltas P s), snd (accumulators s) + snd (stop_deltas P s))
          else stop_deltas P s)
     \<and> clock_defined P s1"
  using assms by (simp add: Stop_defined accumulators_def)

lemmas enum_defs =
  RGXTIMECORR_CLOCK_MONO_def RGXTIMECORR_CLOCK_MONO_RAW_def RGXTIMECORR_CLOCK_SCHED_def
  RGXTIMECORR_CLOCK_LAST_def

lemmas run_defs =
  RGXGPUFreqCalibrateClockns64_def RGXGPUFreqCalibrateClockus64_def OSDivide64r64_def
  RGXGPUFreqCalibrationPeriodStop_def RGXGPUFreqCalibrationPeriodStart_def
  RGXGPUFreqCalibrationCalculate_def RGXFWIF_GET_GPU_CLOCK_FREQUENCY_HZ_def
  RGXMakeTimeCorrData_def RGXFWIF_TIME_CORR_CURR_INDEX_def PVR_ASSERT_def
  host_read_def host_call_def enum_defs Let_def

lemmas example_defs =
  example_platform_def example_machine_def example_table_def example_record_def

lemma Stop_Inr_D:
  "RGXGPUFreqCalibrationPeriodStop P s = Inr s1 \<Longrightarrow> clock_defined P s"
  using Stop_Inl [of P s] by auto

lemma Start_Inr_D:
  assumes "RGXGPUFreqCalibrationPeriodStart P s = Inr s2"
  shows "clock_defined P s"
    and "unat (RGX_GPU_DVFS_GET_INDEX P (psRGXTimingInfo_ui32CoreClockSpeed s))
           < length (aui32DVFSClock (psGpuDVFSTable s))"
proof -
  show d: "clock_defined P s"
  proof (rule ccontr)
    assume "\<not> clock_defined P s"
    then have "RGXGPUFreqCalibrateClockus64 P (host_read Call_RGXReadHWTimerReg s) = Inl AssertionFailed"
      by (simp add: Clockus64_Inl)
    then show False
      using assms by (simp add: RGXGPUFreqCalibrationPeriodStart_def Let_def)
  qed
  have c: "RGXGPUFreqCalibrateClockus64 P (host_read Call_RGXReadHWTimerReg s) =
        Inr (clock_us P (g_ui32ClockSource s) (Suc (now s)), after_clock (host_read Call_RGXReadHWTimerReg s))"
    using d by (simp add: Clockus64_defined)
  show "unat (RGX_GPU_DVFS_GET_INDEX P (psRGXTimingInfo_ui32CoreClockSpeed s))
           < length (aui32DVFSClock (psGpuDVFSTable s))"
  proof (rule ccontr)
    assume "\<not> ?thesis"
    then show False
      using assms by (simp add: RGXGPUFreqCalibrationPeriodStart_def Let_def c)
  qed
qed

lemma Make_Inr_D:
  assumes "RGXMakeTimeCorrData P b s = Inr s'"
  shows "clock_defined P s"
    and "unat (ui32CurrentDVFSId (psGpuDVFSTable s)) < length (aui32DVFSClock (psGpuDVFSTable s))"
    and "sTimeCorr (psRGXFWIfGpuUtilFWCb s) \<noteq> []"
    and "workload_clock_ok P (now s)"
proof -
  show i: "unat (ui32CurrentDVFSId (psGpuDVFSTable s)) < length (aui32DVFSClock (psGpuDVFSTable s))"
  proof (rule ccontr)
    assume "\<not> ?thesis"
    then show False
      using assms by (simp add: RGXMakeTimeCorrData_def Let_def)
  qed
  show w: "workload_clock_ok P (now s)"
  proof (rule ccontr)
    assume "\<not> ?thesis"
    then show False
      using assms i
      by (simp add: RGXMakeTimeCorrData_def Let_def workload_clock_ok_def PVR_ASSERT_def
          split: if_splits)
  qed
  show r: "sTimeCorr (psRGXFWIfGpuUtilFWCb s) \<noteq> []"
  proof (rule ccontr)
    assume "\<not> ?thesis"
    then show False
      using assms i by (simp add: RGXMakeTimeCorrData_def Let_def split: if_splits)
  qed
  show "clock_defined P s"
  proof (rule ccontr)
    assume n: "\<not> clock_defined P s"
    have "RGXGPUFreqCalibrateClockns64 P (host_read Call_RGXReadHWTimerReg s) = Inl AssertionFailed"
      "RGXGPUFreqCalibrateClockns64 P
         (host_read Call_RGXReadHWTimerReg (host_read Call_OSClockMonotonicns64 s)) = Inl AssertionFailed"
      using n by (simp_all add: Clockns64_Inl)
    then show False
      using assms by (simp add: RGXMakeTimeCorrData_def Let_def split: if_splits)
  qed
qed

lemma Calculate_frame:
  assumes "RGXGPUFreqCalibrationCalculate P s = Inr (hz, s1)"
  shows "g_ui32ClockSource s1 = g_ui32ClockSource s"
    and "calls s1 = calls s"
    and "now s1 = now s"
    and "psRGXFWIfGpuUtilFWCb s1 = psRGXFWIfGpuUtilFWCb s"
    and "psRGXTimingInfo_ui32CoreClockSpeed s1 = psRGXTimingInfo_ui32CoreClockSpeed s"
    and "length (aui32DVFSClock (psGpuDVFSTable s1)) = length (aui32DVFSClock (psGpuDVFSTable s))"
    and "clock_defined P s1 = clock_defined P s"
  using assms
  by (auto simp add: RGXGPUFreqCalibrationCalculate_def RGXFWIF_GET_GPU_CLOCK_FREQUENCY_HZ_def
      Let_def clock_defined_def split: if_splits)

lemma Calculate_defined:
  assumes "NO_HARDWARE P \<or> ui64CalibrationOSTimediff (psGpuDVFSTable s) \<noteq> 0"
    and "unat (ui32CurrentDVFSId (psGpuDVFSTable s)) < length (aui32DVFSClock (psGpuDVFSTable s))"
  shows "\<exists>hz s1. RGXGPUFreqCalibrationCalculate P s = Inr (hz, s1)"
  using assms
  by (auto simp add: RGXGPUFreqCalibrationCalculate_def RGXFWIF_GET_GPU_CLOCK_FREQUENCY_HZ_def Let_def)


lemma Start_Make:
  assumes "window_defined P s"
  shows "\<exists>s2 s3. RGXGPUFreqCalibrationPeriodStart P s = Inr s2
     \<and> RGXMakeTimeCorrData P b s2 = Inr s3
     \<and> psGpuDVFSTable s3 = psGpuDVFSTable s2
     \<and> current_index s2 = RGX_GPU_DVFS_GET_INDEX P (psRGXTimingInfo_ui32CoreClockSpeed s)
     \<and> accumulators s2 = accumulators s
     \<and> bAccumulatePeriod (psGpuDVFSTable s2) = bAccumulatePeriod (psGpuDVFSTable s)
     \<and> known_clocks s2 =
         (if known_clocks s ! unat (RGX_GPU_DVFS_GET_INDEX P (psRGXTimingInfo_ui32CoreClockSpeed s)) = 0
           \<or> known_clocks s ! unat (RGX_GPU_DVFS_GET_INDEX P (psRGXTimingInfo_ui32CoreClockSpeed s))
               = psRGXTimingInfo_ui32CoreClockSpeed s
          then (known_clocks s)
                 [unat (RGX_GPU_DVFS_GET_INDEX P (psRGXTimingInfo_ui32CoreClockSpeed s))
                    := psRGXTimingInfo_ui32CoreClockSpeed s]
          else known_clocks s)
     \<and> ui64CalibrationCRTimestamp (psGpuDVFSTable s2) = RGXReadHWTimerReg P (now s)
     \<and> ui64CalibrationOSTimestamp (psGpuDVFSTable s2) = clock_us P (g_ui32ClockSource s) (Suc (now s))
     \<and> seq_count s3 = seq_count s + 1
     \<and> g_ui32ClockSource s3 = g_ui32ClockSource s
     \<and> hPowerLock s3 = hPowerLock s
     \<and> (\<exists>os cr hz. calls s3 = calls s @ [Call_RGXReadHWTimerReg] @ clock_call (g_ui32ClockSource s)
           @ workload_call P @ [Call_RGXReadHWTimerReg] @ clock_call (g_ui32ClockSource s)
           @ [Call_HTBSyncScale b os cr hz])"
proof -
  have d: "clock_defined P s"
    and i: "unat (RGX_GPU_DVFS_GET_INDEX P (psRGXTimingInfo_ui32CoreClockSpeed s))
          < length (aui32DVFSClock (psGpuDVFSTable s))"
    and r: "sTimeCorr (psRGXFWIfGpuUtilFWCb s) \<noteq> []"
    and w: "workload_clock_ok P (Suc (now s + length (clock_call (g_ui32ClockSource s))))"
    using assms by (simp_all add: window_defined_def)
  obtain s2 where s2: "RGXGPUFreqCalibrationPeriodStart P s = Inr s2"
    and c2: "current_index s2 = RGX_GPU_DVFS_GET_INDEX P (psRGXTimingInfo_ui32CoreClockSpeed s)"
    and a2: "accumulators s2 = accumulators s"
    and f2: "bAccumulatePeriod (psGpuDVFSTable s2) = bAccumulatePeriod (psGpuDVFSTable s)"
    and k2: "known_clocks s2 =
         (if known_clocks s ! unat (RGX_GPU_DVFS_GET_INDEX P (psRGXTimingInfo_ui32CoreClockSpeed s)) = 0
           \<or> known_clocks s ! unat (RGX_GPU_DVFS_GET_INDEX P (psRGXTimingInfo_ui32CoreClockSpeed s))
               = psRGXTimingInfo_ui32CoreClockSpeed s
          then (known_clocks s)
                 [unat (RGX_GPU_DVFS_GET_INDEX P (psRGXTimingInfo_ui32CoreClockSpeed s))
                    := psRGXTimingInfo_ui32CoreClockSpeed s]
          else known_clocks s)"
    and t2: "ui64CalibrationCRTimestamp (psGpuDVFSTable s2) = RGXReadHWTimerReg P (now s)"
      "ui64CalibrationOSTimestamp (psGpuDVFSTable s2) = clock_us P (g_ui32ClockSource s) (Suc (now s))"
    and m2: "clock_defined P s2"
      "sTimeCorr (psRGXFWIfGpuUtilFWCb s2) \<noteq> []"
      "now s2 = Suc (now s + length (clock_call (g_ui32ClockSource s)))"
      "calls s2 = calls s @ [Call_RGXReadHWTimerReg] @ clock_call (g_ui32ClockSource s)"
      "g_ui32ClockSource s2 = g_ui32ClockSource s"
      "hPowerLock s2 = hPowerLock s"
      "psRGXFWIfGpuUtilFWCb s2 = psRGXFWIfGpuUtilFWCb s"
    using d r by (simp add: Start_defined [OF d i] current_index_def accumulators_def known_clocks_def)
  have l2: "length (known_clocks s2) = length (known_clocks s)"
    by (simp add: k2)
  have i2: "unat (ui32CurrentDVFSId (psGpuDVFSTable s2)) < length (aui32DVFSClock (psGpuDVFSTable s2))"
    using i c2 l2 by (simp add: current_index_def known_clocks_def)
  have w2: "workload_clock_ok P (now s2)"
    using w by (simp add: m2(3))
  obtain s3 where s3: "RGXMakeTimeCorrData P b s2 = Inr s3"
    and q3: "ui32TimeCorrSeqCount (psRGXFWIfGpuUtilFWCb s3) = ui32TimeCorrSeqCount (psRGXFWIfGpuUtilFWCb s2) + 1"
    and c3: "\<exists>os cr hz. calls s3 = calls s2 @ workload_call P @ [Call_RGXReadHWTimerReg]
          @ clock_call (g_ui32ClockSource s2) @ [Call_HTBSyncScale b os cr hz]"
    and f3: "psGpuDVFSTable s3 = psGpuDVFSTable s2"
      "g_ui32ClockSource s3 = g_ui32ClockSource s2"
      "hPowerLock s3 = hPowerLock s2"
    using Make_defined [OF m2(1) i2 m2(2) w2, of b] by blast
  have "seq_count s3 = seq_count s + 1"
    using q3 by (simp add: seq_count_def m2(7))
  moreover have "\<exists>os cr hz. calls s3 = calls s @ [Call_RGXReadHWTimerReg] @ clock_call (g_ui32ClockSource s)
           @ workload_call P @ [Call_RGXReadHWTimerReg] @ clock_call (g_ui32ClockSource s)
           @ [Call_HTBSyncScale b os cr hz]"
    using c3 by (simp add: m2(4,5))
  ultimately show ?thesis
    using s2 s3 f3 c2 a2 f2 k2 t2 m2(5,6) by auto
qed

lemma ucast_threshold_nonzero:
  assumes "(t :: IMG_UINT32) \<noteq> 0" and "(ucast t :: IMG_UINT64) \<le> u"
  shows "u \<noteq> 0"
proof
  assume "u = 0"
  then have "(ucast t :: IMG_UINT64) = 0"
    using assms(2) by simp
  then have "unat (ucast t :: IMG_UINT64) = 0"
    by simp
  then have m: "unat t mod 2 ^ 64 = 0"
    by (simp add: unsigned_ucast_eq take_bit_eq_mod)
  have "unat t < 2 ^ 32"
    using unsigned_less [of t, where ?'a = nat] by simp
  then have "unat t < 2 ^ 64"
    by (rule less_trans) simp
  then have "unat t = 0"
    using m by simp
  then show False
    using assms(1) by (simp add: unat_eq_0)
qed


lemma set_accumulate_frame [simp]:
  "current_index (set_accumulate b s) = current_index s"
  "known_clocks (set_accumulate b s) = known_clocks s"
  "seq_count (set_accumulate b s) = seq_count s"
  "calls (set_accumulate b s) = calls s"
  "g_ui32ClockSource (set_accumulate b s) = g_ui32ClockSource s"
  "hPowerLock (set_accumulate b s) = hPowerLock s"
  "now (set_accumulate b s) = now s"
  "psRGXFWIfGpuUtilFWCb (set_accumulate b s) = psRGXFWIfGpuUtilFWCb s"
  "psRGXTimingInfo_ui32CoreClockSpeed (set_accumulate b s) = psRGXTimingInfo_ui32CoreClockSpeed s"
  "ui64CalibrationCRTimestamp (psGpuDVFSTable (set_accumulate b s)) = ui64CalibrationCRTimestamp (psGpuDVFSTable s)"
  "ui64CalibrationOSTimestamp (psGpuDVFSTable (set_accumulate b s)) = ui64CalibrationOSTimestamp (psGpuDVFSTable s)"
  "aui32DVFSClock (psGpuDVFSTable (set_accumulate b s)) = aui32DVFSClock (psGpuDVFSTable s)"
  "window_defined P (set_accumulate b s) = window_defined P s"
  by (simp_all add: set_accumulate_def current_index_def known_clocks_def seq_count_def
      window_defined_def clock_defined_def)

lemma Calculate_window_defined:
  assumes "RGXGPUFreqCalibrationCalculate P s = Inr (hz, s1)"
  shows "window_defined P s1 = window_defined P s"
  using Calculate_frame [OF assms] by (simp add: window_defined_def)

lemma table_eq_lift:
  assumes "psGpuDVFSTable s3 = psGpuDVFSTable s2"
  shows "current_index s3 = current_index s2"
    and "accumulators s3 = accumulators s2"
    and "known_clocks s3 = known_clocks s2"
    and "bAccumulatePeriod (psGpuDVFSTable s3) = bAccumulatePeriod (psGpuDVFSTable s2)"
  using assms by (simp_all add: current_index_def accumulators_def known_clocks_def)

lemma Start_Make_Inr_D:
  assumes "RGXGPUFreqCalibrationPeriodStart P x = Inr sb"
    and "RGXMakeTimeCorrData P b sb = Inr s'"
  shows "window_defined P x"
proof -
  note d = Start_Inr_D [OF assms(1)]
  have sb: "psRGXFWIfGpuUtilFWCb sb = psRGXFWIfGpuUtilFWCb x"
    "now sb = Suc (now x + length (clock_call (g_ui32ClockSource x)))"
    using assms(1) by (auto simp add: Start_defined [OF d])
  note m = Make_Inr_D [OF assms(2)]
  show ?thesis
    using d m(3,4) by (simp add: window_defined_def sb)
qed

lemma Stop_frame:
  assumes "RGXGPUFreqCalibrationPeriodStop P s = Inr sa"
  shows "g_ui32ClockSource sa = g_ui32ClockSource s"
    and "calls sa = calls s @ [Call_RGXReadHWTimerReg] @ clock_call (g_ui32ClockSource s)"
    and "seq_count sa = seq_count s"
  using assms by (auto simp add: Stop_defined [OF Stop_Inr_D [OF assms]] seq_count_def)


lemma PreClockSourceChange_Inr_D:
  assumes "RGXGPUFreqCalibratePreClockSourceChange P s = Inr s1"
    and "\<not> DRIVER_MODE_GUEST P"
  shows "\<exists>sa. RGXGPUFreqCalibrationPeriodStop P s = Inr sa
     \<and> (if ucast (ui32CalibrationPeriod (psGpuDVFSTable sa))
             \<le> ui64CalibrationOSTimediff (psGpuDVFSTable sa)
        then \<exists>hz. RGXGPUFreqCalibrationCalculate P sa = Inr (hz, s1)
        else s1 = sa)"
  using assms
  by (auto simp add: RGXGPUFreqCalibratePreClockSourceChange_def split: sum.splits if_splits)

lemma PostClockSourceChange_Inr_D:
  assumes "RGXGPUFreqCalibratePostClockSourceChange P x = Inr s'"
    and "\<not> DRIVER_MODE_GUEST P"
  shows "\<exists>sb. RGXGPUFreqCalibrationPeriodStart P (set_accumulate True x) = Inr sb
     \<and> RGXMakeTimeCorrData P True sb = Inr s'"
  using assms
  by (auto simp add: RGXGPUFreqCalibratePostClockSourceChange_def set_accumulate_def Let_def
      split: sum.splits)

lemma Calculate_eq:
  assumes "NO_HARDWARE P \<or> ui64CalibrationOSTimediff (psGpuDVFSTable s) \<noteq> 0"
    and "unat (ui32CurrentDVFSId (psGpuDVFSTable s)) < length (aui32DVFSClock (psGpuDVFSTable s))"
  shows "RGXGPUFreqCalibrationCalculate P s =
     (if NO_HARDWARE P
      then Inr (aui32DVFSClock (psGpuDVFSTable s) ! unat (ui32CurrentDVFSId (psGpuDVFSTable s)), s)
      else Inr (ucast (ui64CalibrationCRTimediff (psGpuDVFSTable s) * 1000000
                         div ui64CalibrationOSTimediff (psGpuDVFSTable s)),
                s\<lparr>psGpuDVFSTable := (psGpuDVFSTable s)\<lparr>
                     aui32DVFSClock := (aui32DVFSClock (psGpuDVFSTable s))
                       [unat (ui32CurrentDVFSId (psGpuDVFSTable s)) :=
                          ucast (ui64CalibrationCRTimediff (psGpuDVFSTable s) * 1000000
                                   div ui64CalibrationOSTimediff (psGpuDVFSTable s))],
                     ui64CalibrationCRTimediff := 0,
                     ui64CalibrationOSTimediff := 0\<rparr>\<rparr>))"
  using assms
  by (auto simp add: RGXGPUFreqCalibrationCalculate_def RGXFWIF_GET_GPU_CLOCK_FREQUENCY_HZ_def Let_def)

lemma Calculate_Inr_D:
  assumes "RGXGPUFreqCalibrationCalculate P s = Inr (hz, s1)"
  shows "NO_HARDWARE P \<or> ui64CalibrationOSTimediff (psGpuDVFSTable s) \<noteq> 0"
    and "unat (ui32CurrentDVFSId (psGpuDVFSTable s)) < length (aui32DVFSClock (psGpuDVFSTable s))"
  using assms
  by (auto simp add: RGXGPUFreqCalibrationCalculate_def RGXFWIF_GET_GPU_CLOCK_FREQUENCY_HZ_def Let_def
      split: if_splits)

lemma Make_eq:
  assumes "clock_defined P s"
    and "unat (ui32CurrentDVFSId (psGpuDVFSTable s)) < length (aui32DVFSClock (psGpuDVFSTable s))"
    and "sTimeCorr (psRGXFWIfGpuUtilFWCb s) \<noteq> []"
    and "workload_clock_ok P (now s)"
  shows "RGXMakeTimeCorrData P b s =
     Inr (s\<lparr>psRGXFWIfGpuUtilFWCb := (psRGXFWIfGpuUtilFWCb s)\<lparr>
               sTimeCorr := (sTimeCorr (psRGXFWIfGpuUtilFWCb s))[next_slot s :=
                 (sTimeCorr (psRGXFWIfGpuUtilFWCb s) ! next_slot s)\<lparr>
                   ui64CRTimeStamp := RGXReadHWTimerReg P (now s + length (workload_call P)),
                   ui64OSTimeStamp :=
                     clock_ns P (g_ui32ClockSource s) (Suc (now s + length (workload_call P))),
                   ui64OSMonoTimeStamp :=
                     (if SUPPORT_WORKLOAD_ESTIMATION P then snd (OSClockMonotonicns64 P (now s))
                      else ui64OSMonoTimeStamp (sTimeCorr (psRGXFWIfGpuUtilFWCb s) ! next_slot s)),
                   ui32CoreClockSpeed :=
                     aui32DVFSClock (psGpuDVFSTable s) ! unat (ui32CurrentDVFSId (psGpuDVFSTable s)),
                   ui64CRDeltaToOSDeltaKNs := RGXFWIF_GET_CRDELTA_TO_OSDELTA_K_NS P
                     (aui32DVFSClock (psGpuDVFSTable s)
                        ! unat (ui32CurrentDVFSId (psGpuDVFSTable s)))\<rparr>],
               ui32TimeCorrSeqCount := ui32TimeCorrSeqCount (psRGXFWIfGpuUtilFWCb s) + 1\<rparr>,
             now := Suc (now s + length (workload_call P)) + length (clock_call (g_ui32ClockSource s)),
             calls := calls s @ workload_call P @ [Call_RGXReadHWTimerReg]
               @ clock_call (g_ui32ClockSource s)
               @ [Call_HTBSyncScale b
                    (clock_ns P (g_ui32ClockSource s) (Suc (now s + length (workload_call P))))
                    (RGXReadHWTimerReg P (now s + length (workload_call P)))
                    (aui32DVFSClock (psGpuDVFSTable s)
                       ! unat (ui32CurrentDVFSId (psGpuDVFSTable s)))]\<rparr>)"
proof (cases "SUPPORT_WORKLOAD_ESTIMATION P")
  case True
  have c: "RGXGPUFreqCalibrateClockns64 P
             (host_read Call_RGXReadHWTimerReg (host_read Call_OSClockMonotonicns64 s)) =
           Inr (clock_ns P (g_ui32ClockSource s) (Suc (Suc (now s))),
                after_clock (host_read Call_RGXReadHWTimerReg (host_read Call_OSClockMonotonicns64 s)))"
    using assms(1) by (simp add: Clockns64_defined)
  show ?thesis
    using assms(2-4) True
    by (simp add: RGXMakeTimeCorrData_def Let_def c workload_call_def workload_clock_ok_def
        next_slot_def PVR_ASSERT_def)
next
  case False
  have c: "RGXGPUFreqCalibrateClockns64 P (host_read Call_RGXReadHWTimerReg s) =
           Inr (clock_ns P (g_ui32ClockSource s) (Suc (now s)),
                after_clock (host_read Call_RGXReadHWTimerReg s))"
    using assms(1) by (simp add: Clockns64_defined)
  show ?thesis
    using assms(2-4) False
    by (simp add: RGXMakeTimeCorrData_def Let_def c workload_call_def workload_clock_ok_def
        next_slot_def)
qed



lemma Start_Make_eq:
  assumes "window_defined P x"
  shows "let tbl = psGpuDVFSTable x;
             cb = psRGXFWIfGpuUtilFWCb x;
             src = g_ui32ClockSource x;
             speed = psRGXTimingInfo_ui32CoreClockSpeed x;
             point = RGX_GPU_DVFS_GET_INDEX P speed;
             known = aui32DVFSClock tbl ! unat point;
             fresh = (known = 0 \<or> known = speed);
             clk = (if fresh then speed else known);
             n1 = Suc (now x + length (clock_call src));
             n2 = n1 + length (workload_call P);
             cr = RGXReadHWTimerReg P n2;
             os = clock_ns P src (Suc n2);
             old = sTimeCorr cb ! next_slot x
         in \<exists>s2. RGXGPUFreqCalibrationPeriodStart P x = Inr s2
              \<and> RGXMakeTimeCorrData P b s2 = Inr (x\<lparr>
                    psGpuDVFSTable := tbl\<lparr>
                      ui64CalibrationCRTimestamp := RGXReadHWTimerReg P (now x),
                      ui64CalibrationOSTimestamp := clock_us P src (Suc (now x)),
                      aui32DVFSClock :=
                        (if fresh then (aui32DVFSClock tbl)[unat point := speed]
                         else aui32DVFSClock tbl),
                      ui32CalibrationPeriod :=
                        (if fresh then RGX_GPU_DVFS_FIRST_CALIBRATION_TIME_US P
                         else if ui32CalibrationPeriod tbl = RGX_GPU_DVFS_FIRST_CALIBRATION_TIME_US P
                         then RGX_GPU_DVFS_TRANSITION_CALIBRATION_TIME_US P
                         else RGX_GPU_DVFS_PERIODIC_CALIBRATION_TIME_US P),
                      ui32CurrentDVFSId := point\<rparr>,
                    psRGXFWIfGpuUtilFWCb := cb\<lparr>
                      sTimeCorr := (sTimeCorr cb)[next_slot x := old\<lparr>
                        ui64CRTimeStamp := cr,
                        ui64OSTimeStamp := os,
                        ui64OSMonoTimeStamp :=
                          (if SUPPORT_WORKLOAD_ESTIMATION P then snd (OSClockMonotonicns64 P n1)
                           else ui64OSMonoTimeStamp old),
                        ui32CoreClockSpeed := clk,
                        ui64CRDeltaToOSDeltaKNs := RGXFWIF_GET_CRDELTA_TO_OSDELTA_K_NS P clk\<rparr>],
                      ui32TimeCorrSeqCount := ui32TimeCorrSeqCount cb + 1\<rparr>,
                    now := Suc n2 + length (clock_call src),
                    calls := calls x @ [Call_RGXReadHWTimerReg] @ clock_call src @ workload_call P
                      @ [Call_RGXReadHWTimerReg] @ clock_call src
                      @ [Call_HTBSyncScale b os cr clk]\<rparr>)"
proof -
  have d: "clock_defined P x"
    and i: "unat (RGX_GPU_DVFS_GET_INDEX P (psRGXTimingInfo_ui32CoreClockSpeed x))
          < length (aui32DVFSClock (psGpuDVFSTable x))"
    and r: "sTimeCorr (psRGXFWIfGpuUtilFWCb x) \<noteq> []"
    and w: "workload_clock_ok P (Suc (now x + length (clock_call (g_ui32ClockSource x))))"
    using assms by (simp_all add: window_defined_def)
  note st = Start_defined [OF d i]
  show ?thesis
  proof (cases "aui32DVFSClock (psGpuDVFSTable x)
                  ! unat (RGX_GPU_DVFS_GET_INDEX P (psRGXTimingInfo_ui32CoreClockSpeed x)) = 0
                \<or> aui32DVFSClock (psGpuDVFSTable x)
                  ! unat (RGX_GPU_DVFS_GET_INDEX P (psRGXTimingInfo_ui32CoreClockSpeed x))
                  = psRGXTimingInfo_ui32CoreClockSpeed x")
    case True
    show ?thesis
      using d i r w True
      by (simp add: Let_def st Make_eq next_slot_def del: disj_not1)
  next
    case False
    show ?thesis
      using d i r w False
      by (simp add: Let_def st Make_eq next_slot_def)
  qed
qed

lemma next_slot_frame [simp]:
  "next_slot (s\<lparr>psGpuDVFSTable := t\<rparr>) = next_slot s"
  "next_slot (s\<lparr>g_ui32ClockSource := v\<rparr>) = next_slot s"
  "next_slot (set_accumulate b s) = next_slot s"
  by (simp_all add: next_slot_def set_accumulate_def)

lemma window_defined_table:
  assumes "length (aui32DVFSClock t) = length (aui32DVFSClock (psGpuDVFSTable s))"
  shows "window_defined P (s\<lparr>psGpuDVFSTable := t\<rparr>) = window_defined P s"
  using assms by (simp add: window_defined_def)

lemma SetClock_hooks:
  assumes "SetClock P ui32Value s = Inr (PVRSRV_OK, s')"
  shows "\<exists>s1. RGXGPUFreqCalibratePreClockSourceChange P s = Inr s1
     \<and> g_ui32ClockSource s1 = g_ui32ClockSource s
     \<and> RGXGPUFreqCalibratePostClockSourceChange P (s1\<lparr>g_ui32ClockSource := ui32Value\<rparr>) = Inr s'
     \<and> g_ui32ClockSource s' = ui32Value
     \<and> (\<not> DRIVER_MODE_GUEST P \<longrightarrow>
          (\<exists>sa. RGXGPUFreqCalibrationPeriodStop P s = Inr sa
             \<and> (if ucast (ui32CalibrationPeriod (psGpuDVFSTable sa))
                     \<le> ui64CalibrationOSTimediff (psGpuDVFSTable sa)
                then \<exists>hz. RGXGPUFreqCalibrationCalculate P sa = Inr (hz, s1)
                else s1 = sa))
        \<and> calls s1 = calls s @ [Call_RGXReadHWTimerReg] @ clock_call (g_ui32ClockSource s)
        \<and> (\<exists>sb. RGXGPUFreqCalibrationPeriodStart P
                    (set_accumulate True (s1\<lparr>g_ui32ClockSource := ui32Value\<rparr>)) = Inr sb
               \<and> RGXMakeTimeCorrData P True sb = Inr s')
        \<and> bAccumulatePeriod (psGpuDVFSTable s')
        \<and> seq_count s' = seq_count s + 1
        \<and> (\<exists>os cr clk. calls s' = calls s1 @ [Call_RGXReadHWTimerReg] @ clock_call ui32Value
              @ workload_call P @ [Call_RGXReadHWTimerReg] @ clock_call ui32Value
              @ [Call_HTBSyncScale True os cr clk]))"
proof -
  obtain s1 where p: "RGXGPUFreqCalibratePreClockSourceChange P s = Inr s1"
    and q: "RGXGPUFreqCalibratePostClockSourceChange P (s1\<lparr>g_ui32ClockSource := ui32Value\<rparr>) = Inr s'"
    using assms by (auto simp add: SetClock_def Let_def split: if_splits sum.splits)
  show ?thesis
  proof (cases "DRIVER_MODE_GUEST P")
    case True
    then have "s1 = s" "s' = s1\<lparr>g_ui32ClockSource := ui32Value\<rparr>"
      using p q
      by (simp_all add: RGXGPUFreqCalibratePreClockSourceChange_def
          RGXGPUFreqCalibratePostClockSourceChange_def)
    then show ?thesis
      using p q True by auto
  next
    case False
    obtain sa where sa: "RGXGPUFreqCalibrationPeriodStop P s = Inr sa"
      and c: "if ucast (ui32CalibrationPeriod (psGpuDVFSTable sa))
                     \<le> ui64CalibrationOSTimediff (psGpuDVFSTable sa)
                then \<exists>hz. RGXGPUFreqCalibrationCalculate P sa = Inr (hz, s1)
                else s1 = sa"
      using PreClockSourceChange_Inr_D [OF p False] by blast
    note fa = Stop_frame [OF sa]
    have f1: "g_ui32ClockSource s1 = g_ui32ClockSource sa" "calls s1 = calls sa"
      "seq_count s1 = seq_count sa"
      using c by (auto simp add: seq_count_def split: if_splits dest: Calculate_frame)
    define x where "x = set_accumulate True (s1\<lparr>g_ui32ClockSource := ui32Value\<rparr>)"
    obtain sb where sb: "RGXGPUFreqCalibrationPeriodStart P x = Inr sb"
      and m: "RGXMakeTimeCorrData P True sb = Inr s'"
      using PostClockSourceChange_Inr_D [OF q False] unfolding x_def by blast
    have w: "window_defined P x"
      by (rule Start_Make_Inr_D [OF sb m])
    have xs: "g_ui32ClockSource x = ui32Value" "calls x = calls s1" "seq_count x = seq_count s1"
      "bAccumulatePeriod (psGpuDVFSTable x)"
      by (simp_all add: x_def seq_count_def)
    obtain s2 s3 where s2: "RGXGPUFreqCalibrationPeriodStart P x = Inr s2"
      and s3: "RGXMakeTimeCorrData P True s2 = Inr s3"
      and e: "psGpuDVFSTable s3 = psGpuDVFSTable s2"
      and y: "bAccumulatePeriod (psGpuDVFSTable s2) = bAccumulatePeriod (psGpuDVFSTable x)"
        "seq_count s3 = seq_count x + 1"
        "g_ui32ClockSource s3 = g_ui32ClockSource x"
      and l: "\<exists>os cr hz. calls s3 = calls x @ [Call_RGXReadHWTimerReg] @ clock_call (g_ui32ClockSource x)
           @ workload_call P @ [Call_RGXReadHWTimerReg] @ clock_call (g_ui32ClockSource x)
           @ [Call_HTBSyncScale True os cr hz]"
      using Start_Make [OF w, of True] by blast
    have eq: "s2 = sb" "s3 = s'"
      using sb m s2 s3 by simp_all
    have g1: "g_ui32ClockSource s1 = g_ui32ClockSource s"
      by (simp add: f1 fa)
    have g2: "g_ui32ClockSource s' = ui32Value"
      using y(3) by (simp add: eq xs)
    have g3: "calls s1 = calls s @ [Call_RGXReadHWTimerReg] @ clock_call (g_ui32ClockSource s)"
      by (simp add: f1 fa)
    have g4: "bAccumulatePeriod (psGpuDVFSTable s')"
      using y(1) e xs(4) by (simp add: eq)
    have g5: "seq_count s' = seq_count s + 1"
      using y(2) by (simp add: eq xs f1 fa)
    have g6: "\<exists>os cr clk. calls s' = calls s1 @ [Call_RGXReadHWTimerReg] @ clock_call ui32Value
              @ workload_call P @ [Call_RGXReadHWTimerReg] @ clock_call ui32Value
              @ [Call_HTBSyncScale True os cr clk]"
      using l by (simp add: eq xs)
    have g7: "\<exists>sb. RGXGPUFreqCalibrationPeriodStart P
                    (set_accumulate True (s1\<lparr>g_ui32ClockSource := ui32Value\<rparr>)) = Inr sb
               \<and> RGXMakeTimeCorrData P True sb = Inr s'"
      using sb m unfolding x_def by blast
    show ?thesis
      using p q sa c g1 g2 g3 g4 g5 g6 g7 by blast
  qed
qed

lemma Start_Make_D:
  assumes "RGXGPUFreqCalibrationPeriodStart P x = Inr s2"
    and "RGXMakeTimeCorrData P b s2 = Inr s3"
  shows "s3 = (let tbl = psGpuDVFSTable x;
             cb = psRGXFWIfGpuUtilFWCb x;
             src = g_ui32ClockSource x;
             speed = psRGXTimingInfo_ui32CoreClockSpeed x;
             point = RGX_GPU_DVFS_GET_INDEX P speed;
             known = aui32DVFSClock tbl ! unat point;
             fresh = (known = 0 \<or> known = speed);
             clk = (if fresh then speed else known);
             n1 = Suc (now x + length (clock_call src));
             n2 = n1 + length (workload_call P);
             cr = RGXReadHWTimerReg P n2;
             os = clock_ns P src (Suc n2);
             old = sTimeCorr cb ! next_slot x
         in x\<lparr>
                    psGpuDVFSTable := tbl\<lparr>
                      ui64CalibrationCRTimestamp := RGXReadHWTimerReg P (now x),
                      ui64CalibrationOSTimestamp := clock_us P src (Suc (now x)),
                      aui32DVFSClock :=
                        (if fresh then (aui32DVFSClock tbl)[unat point := speed]
                         else aui32DVFSClock tbl),
                      ui32CalibrationPeriod :=
                        (if fresh then RGX_GPU_DVFS_FIRST_CALIBRATION_TIME_US P
                         else if ui32CalibrationPeriod tbl = RGX_GPU_DVFS_FIRST_CALIBRATION_TIME_US P
                         then RGX_GPU_DVFS_TRANSITION_CALIBRATION_TIME_US P
                         else RGX_GPU_DVFS_PERIODIC_CALIBRATION_TIME_US P),
                      ui32CurrentDVFSId := point\<rparr>,
                    psRGXFWIfGpuUtilFWCb := cb\<lparr>
                      sTimeCorr := (sTimeCorr cb)[next_slot x := old\<lparr>
                        ui64CRTimeStamp := cr,
                        ui64OSTimeStamp := os,
                        ui64OSMonoTimeStamp :=
                          (if SUPPORT_WORKLOAD_ESTIMATION P then snd (OSClockMonotonicns64 P n1)
                           else ui64OSMonoTimeStamp old),
                        ui32CoreClockSpeed := clk,
                        ui64CRDeltaToOSDeltaKNs := RGXFWIF_GET_CRDELTA_TO_OSDELTA_K_NS P clk\<rparr>],
                      ui32TimeCorrSeqCount := ui32TimeCorrSeqCount cb + 1\<rparr>,
                    now := Suc n2 + length (clock_call src),
                    calls := calls x @ [Call_RGXReadHWTimerReg] @ clock_call src @ workload_call P
                      @ [Call_RGXReadHWTimerReg] @ clock_call src
                      @ [Call_HTBSyncScale b os cr clk]\<rparr>)"
proof -
  have w: "window_defined P x"
    by (rule Start_Make_Inr_D [OF assms])
  show ?thesis
    using Start_Make_eq [OF w, of b] assms unfolding Let_def by auto
qed

lemma SetClock_state:
  assumes "SetClock P ui32Value s = Inr (PVRSRV_OK, s')"
    and "\<not> DRIVER_MODE_GUEST P"
  shows "let tbl = psGpuDVFSTable s;
             cb = psRGXFWIfGpuUtilFWCb s;
             src = g_ui32ClockSource s;
             crd = (if bAccumulatePeriod tbl then ui64CalibrationCRTimediff tbl else 0)
                     + (RGXReadHWTimerReg P (now s) - ui64CalibrationCRTimestamp tbl);
             osd = (if bAccumulatePeriod tbl then ui64CalibrationOSTimediff tbl else 0)
                     + (clock_us P src (Suc (now s)) - ui64CalibrationOSTimestamp tbl);
             ta = tbl\<lparr>ui64CalibrationCRTimediff := crd, ui64CalibrationOSTimediff := osd\<rparr>;
             cur = unat (ui32CurrentDVFSId tbl);
             hz = ucast (crd * 1000000 div osd);
             t1 = (if ucast (ui32CalibrationPeriod tbl) \<le> osd \<and> \<not> NO_HARDWARE P
                   then ta\<lparr>aui32DVFSClock := (aui32DVFSClock tbl)[cur := hz],
                           ui64CalibrationCRTimediff := 0,
                           ui64CalibrationOSTimediff := 0\<rparr>
                   else ta);
             n0 = Suc (now s + length (clock_call src));
             speed = psRGXTimingInfo_ui32CoreClockSpeed s;
             point = RGX_GPU_DVFS_GET_INDEX P speed;
             known = aui32DVFSClock t1 ! unat point;
             fresh = (known = 0 \<or> known = speed);
             clk = (if fresh then speed else known);
             n1 = Suc (n0 + length (clock_call ui32Value));
             n2 = n1 + length (workload_call P);
             cr = RGXReadHWTimerReg P n2;
             os = clock_ns P ui32Value (Suc n2);
             old = sTimeCorr cb ! next_slot s
         in s' = s\<lparr>
              g_ui32ClockSource := ui32Value,
              psGpuDVFSTable := t1\<lparr>
                bAccumulatePeriod := True,
                ui64CalibrationCRTimestamp := RGXReadHWTimerReg P n0,
                ui64CalibrationOSTimestamp := clock_us P ui32Value (Suc n0),
                aui32DVFSClock :=
                  (if fresh then (aui32DVFSClock t1)[unat point := speed] else aui32DVFSClock t1),
                ui32CalibrationPeriod :=
                  (if fresh then RGX_GPU_DVFS_FIRST_CALIBRATION_TIME_US P
                   else if ui32CalibrationPeriod t1 = RGX_GPU_DVFS_FIRST_CALIBRATION_TIME_US P
                   then RGX_GPU_DVFS_TRANSITION_CALIBRATION_TIME_US P
                   else RGX_GPU_DVFS_PERIODIC_CALIBRATION_TIME_US P),
                ui32CurrentDVFSId := point\<rparr>,
              psRGXFWIfGpuUtilFWCb := cb\<lparr>
                sTimeCorr := (sTimeCorr cb)[next_slot s := old\<lparr>
                  ui64CRTimeStamp := cr,
                  ui64OSTimeStamp := os,
                  ui64OSMonoTimeStamp :=
                    (if SUPPORT_WORKLOAD_ESTIMATION P then snd (OSClockMonotonicns64 P n1)
                     else ui64OSMonoTimeStamp old),
                  ui32CoreClockSpeed := clk,
                  ui64CRDeltaToOSDeltaKNs := RGXFWIF_GET_CRDELTA_TO_OSDELTA_K_NS P clk\<rparr>],
                ui32TimeCorrSeqCount := ui32TimeCorrSeqCount cb + 1\<rparr>,
              now := Suc n2 + length (clock_call ui32Value),
              calls := calls s @ [Call_RGXReadHWTimerReg] @ clock_call src
                @ [Call_RGXReadHWTimerReg] @ clock_call ui32Value @ workload_call P
                @ [Call_RGXReadHWTimerReg] @ clock_call ui32Value
                @ [Call_HTBSyncScale True os cr clk]\<rparr>"
proof -
  obtain s1 where p: "RGXGPUFreqCalibratePreClockSourceChange P s = Inr s1"
    and q: "RGXGPUFreqCalibratePostClockSourceChange P (s1\<lparr>g_ui32ClockSource := ui32Value\<rparr>) = Inr s'"
    using assms(1) by (auto simp add: SetClock_def Let_def split: if_splits sum.splits)
  obtain sa where sa: "RGXGPUFreqCalibrationPeriodStop P s = Inr sa"
    and c: "if ucast (ui32CalibrationPeriod (psGpuDVFSTable sa))
                   \<le> ui64CalibrationOSTimediff (psGpuDVFSTable sa)
              then \<exists>hz. RGXGPUFreqCalibrationCalculate P sa = Inr (hz, s1)
              else s1 = sa"
    using PreClockSourceChange_Inr_D [OF p assms(2)] by blast
  note SA = sa [unfolded Stop_defined [OF Stop_Inr_D [OF sa]], simplified, symmetric]
  define x where "x = set_accumulate True (s1\<lparr>g_ui32ClockSource := ui32Value\<rparr>)"
  obtain sb where sb: "RGXGPUFreqCalibrationPeriodStart P x = Inr sb"
    and m: "RGXMakeTimeCorrData P True sb = Inr s'"
    using PostClockSourceChange_Inr_D [OF q assms(2)] unfolding x_def by blast
  note X = Start_Make_D [OF sb m]
  show ?thesis
  proof (cases "ucast (ui32CalibrationPeriod (psGpuDVFSTable sa))
                   \<le> ui64CalibrationOSTimediff (psGpuDVFSTable sa)")
    case due: True
    then obtain hz where ch: "RGXGPUFreqCalibrationCalculate P sa = Inr (hz, s1)"
      using c by auto
    note ce = Calculate_eq [OF Calculate_Inr_D [OF ch]]
    show ?thesis
    proof (cases "NO_HARDWARE P")
      case True
      then have s1: "s1 = sa"
        using ch ce by auto
      show ?thesis
        using due True unfolding X x_def s1 SA
        by (simp add: Let_def set_accumulate_def stop_deltas_def host_read_def after_clock_def
            next_slot_def split del: if_split cong: if_cong)
    next
      case False
      then have s1: "s1 = sa\<lparr>psGpuDVFSTable := (psGpuDVFSTable sa)\<lparr>
                     aui32DVFSClock := (aui32DVFSClock (psGpuDVFSTable sa))
                       [unat (ui32CurrentDVFSId (psGpuDVFSTable sa)) :=
                          ucast (ui64CalibrationCRTimediff (psGpuDVFSTable sa) * 1000000
                                   div ui64CalibrationOSTimediff (psGpuDVFSTable sa))],
                     ui64CalibrationCRTimediff := 0,
                     ui64CalibrationOSTimediff := 0\<rparr>\<rparr>"
        using ch ce by auto
      show ?thesis
        using due False unfolding X x_def s1 SA
        by (simp add: Let_def set_accumulate_def stop_deltas_def host_read_def after_clock_def
            next_slot_def split del: if_split cong: if_cong)
    qed
  next
    case notdue: False
    then have s1: "s1 = sa"
      using c by simp
    show ?thesis
      using notdue unfolding X x_def s1 SA
      by (simp add: Let_def set_accumulate_def stop_deltas_def host_read_def after_clock_def
          next_slot_def split del: if_split cong: if_cong)
  qed
qed

subsection \<open>Calculate\<close>

text \<open>
  C1, as amended. In a build with hardware access, with accumulated ticks \<open>T\<close>,
  accumulated host microseconds \<open>U \<noteq> 0\<close> and the current index inside the table,
  Calculate returns \<open>T * 1000000 div U\<close> computed in 64 bits and cut to the 32 bits of
  its result type; this is \<open>round_down (T * 1000000 / U)\<close> whenever the product is
  below \<open>2 ^ 64\<close> and the quotient below \<open>2 ^ 32\<close>. The returned value is stored in
  the table at the current index and both accumulators are zero afterwards.
\<close>

theorem Calculate_frequency:
  assumes "\<not> NO_HARDWARE P"
    and "ui64CalibrationOSTimediff (psGpuDVFSTable s) \<noteq> 0"
    and "unat (ui32CurrentDVFSId (psGpuDVFSTable s)) < length (aui32DVFSClock (psGpuDVFSTable s))"
  shows "\<exists>hz s'. RGXGPUFreqCalibrationCalculate P s = Inr (hz, s')
     \<and> unat hz = (unat (ui64CalibrationCRTimediff (psGpuDVFSTable s)) * 1000000) mod 2 ^ 64
                   div unat (ui64CalibrationOSTimediff (psGpuDVFSTable s)) mod 2 ^ 32
     \<and> (unat (ui64CalibrationCRTimediff (psGpuDVFSTable s)) * 1000000 < 2 ^ 64 \<and>
        unat (ui64CalibrationCRTimediff (psGpuDVFSTable s)) * 1000000
          div unat (ui64CalibrationOSTimediff (psGpuDVFSTable s)) < 2 ^ 32
        \<longrightarrow> unat hz = unat (ui64CalibrationCRTimediff (psGpuDVFSTable s)) * 1000000
                   div unat (ui64CalibrationOSTimediff (psGpuDVFSTable s)))
     \<and> s' = s\<lparr>psGpuDVFSTable := (psGpuDVFSTable s)\<lparr>
                 aui32DVFSClock := (aui32DVFSClock (psGpuDVFSTable s))
                     [unat (ui32CurrentDVFSId (psGpuDVFSTable s)) := hz],
                 ui64CalibrationCRTimediff := 0,
                 ui64CalibrationOSTimediff := 0\<rparr>\<rparr>"
  using assms
  by (simp add: RGXGPUFreqCalibrationCalculate_def RGXFWIF_GET_GPU_CLOCK_FREQUENCY_HZ_def Let_def
      unat_div unat_word_ariths unsigned_ucast_eq take_bit_eq_mod)

theorem Calculate_frequency_witness:
  "\<not> NO_HARDWARE example_platform
   \<and> ui64CalibrationOSTimediff (psGpuDVFSTable calibration_machine) \<noteq> 0
   \<and> unat (ui32CurrentDVFSId (psGpuDVFSTable calibration_machine))
       < length (aui32DVFSClock (psGpuDVFSTable calibration_machine))
   \<and> (\<exists>hz s'. RGXGPUFreqCalibrationCalculate example_platform calibration_machine = Inr (hz, s')
         \<and> unat hz = 1000000000
         \<and> aui32DVFSClock (psGpuDVFSTable s') ! 10 = 1000000000
         \<and> accumulators s' = (0, 0))"
proof -
  have h1: "\<not> NO_HARDWARE example_platform"
    by (simp add: example_platform_def)
  have h2: "ui64CalibrationOSTimediff (psGpuDVFSTable calibration_machine) \<noteq> 0"
    by (simp add: calibration_machine_def example_machine_def example_table_def)
  have h3: "unat (ui32CurrentDVFSId (psGpuDVFSTable calibration_machine))
       < length (aui32DVFSClock (psGpuDVFSTable calibration_machine))"
    by (simp add: calibration_machine_def example_machine_def example_table_def)
  obtain hz s' where r: "RGXGPUFreqCalibrationCalculate example_platform calibration_machine = Inr (hz, s')"
    and v: "unat hz = (unat (ui64CalibrationCRTimediff (psGpuDVFSTable calibration_machine)) * 1000000)
               mod 2 ^ 64 div unat (ui64CalibrationOSTimediff (psGpuDVFSTable calibration_machine)) mod 2 ^ 32"
    and s: "s' = calibration_machine\<lparr>psGpuDVFSTable := (psGpuDVFSTable calibration_machine)\<lparr>
                 aui32DVFSClock := (aui32DVFSClock (psGpuDVFSTable calibration_machine))
                     [unat (ui32CurrentDVFSId (psGpuDVFSTable calibration_machine)) := hz],
                 ui64CalibrationCRTimediff := 0,
                 ui64CalibrationOSTimediff := 0\<rparr>\<rparr>"
    using Calculate_frequency [OF h1 h2 h3] by blast
  have v': "unat hz = 1000000000"
    using v by (simp add: calibration_machine_def example_machine_def example_table_def)
  then have hz: "hz = 1000000000"
    by (simp add: word_unat_eq_iff)
  have "aui32DVFSClock (psGpuDVFSTable s') ! 10 = 1000000000"
    unfolding s hz by (simp add: calibration_machine_def example_machine_def example_table_def)
  moreover have "accumulators s' = (0, 0)"
    unfolding s by (simp add: accumulators_def)
  ultimately show ?thesis
    using h1 h2 h3 r v' by blast
qed

theorem Calculate_frequency_counterexample:
  "map_sum id fst (RGXGPUFreqCalibrationCalculate example_platform overflow_machine) = Inr 705032704
   \<and> unat (ui64CalibrationCRTimediff (psGpuDVFSTable overflow_machine)) * 1000000
       div unat (ui64CalibrationOSTimediff (psGpuDVFSTable overflow_machine)) = 5000000000"
  by (simp add: RGXGPUFreqCalibrationCalculate_def RGXFWIF_GET_GPU_CLOCK_FREQUENCY_HZ_def Let_def
      overflow_machine_def example_machine_def example_table_def example_platform_def)

subsection \<open>Stop\<close>

text \<open>
  C3, as amended. For two consecutive Stop calls with no Start between them (the flag may
  be set or cleared between them, as the hook after a clock speed change does): after
  the first Stop the accumulators are its deltas, added to the earlier accumulators when
  the flag was set; after the second Stop they are its deltas, added to the accumulators
  left by the first when the flag is set, and its deltas alone when the flag is clear.
  So with the flag set at the second Stop the accumulators are the sum of the two
  window deltas when the first Stop started from nothing (flag clear, or accumulators
  zero). All sums are in 64 bit arithmetic.
\<close>

theorem Stop_twice:
  assumes "clock_defined P s"
  shows "\<exists>s1 s2. RGXGPUFreqCalibrationPeriodStop P s = Inr s1
     \<and> RGXGPUFreqCalibrationPeriodStop P (set_accumulate b s1) = Inr s2
     \<and> accumulators s1 =
         (if bAccumulatePeriod (psGpuDVFSTable s)
          then (fst (accumulators s) + fst (stop_deltas P s), snd (accumulators s) + snd (stop_deltas P s))
          else stop_deltas P s)
     \<and> accumulators s2 =
         (if b
          then (fst (accumulators s1) + fst (stop_deltas P s1), snd (accumulators s1) + snd (stop_deltas P s1))
          else stop_deltas P s1)
     \<and> (b \<and> (\<not> bAccumulatePeriod (psGpuDVFSTable s) \<or> accumulators s = (0, 0)) \<longrightarrow>
          accumulators s2 = (fst (stop_deltas P s) + fst (stop_deltas P s1),
                             snd (stop_deltas P s) + snd (stop_deltas P s1)))"
proof -
  obtain s1 where s1: "RGXGPUFreqCalibrationPeriodStop P s = Inr s1"
    and a1: "accumulators s1 =
         (if bAccumulatePeriod (psGpuDVFSTable s)
          then (fst (accumulators s) + fst (stop_deltas P s), snd (accumulators s) + snd (stop_deltas P s))
          else stop_deltas P s)"
    and d1: "clock_defined P s1"
    using Stop_accumulators [OF assms] by blast
  have d1': "clock_defined P (set_accumulate b s1)"
    using d1 by simp
  obtain s2 where s2: "RGXGPUFreqCalibrationPeriodStop P (set_accumulate b s1) = Inr s2"
    and a2: "accumulators s2 =
         (if b
          then (fst (accumulators s1) + fst (stop_deltas P s1), snd (accumulators s1) + snd (stop_deltas P s1))
          else stop_deltas P s1)"
    using Stop_accumulators [OF d1'] by auto
  have "b \<and> (\<not> bAccumulatePeriod (psGpuDVFSTable s) \<or> accumulators s = (0, 0)) \<longrightarrow>
          accumulators s2 = (fst (stop_deltas P s) + fst (stop_deltas P s1),
                             snd (stop_deltas P s) + snd (stop_deltas P s1))"
    using a1 a2 by auto
  with s1 s2 a1 a2 show ?thesis by blast
qed


theorem Stop_twice_witness:
  "clock_defined example_platform example_machine
   \<and> (\<exists>s1 s2. RGXGPUFreqCalibrationPeriodStop example_platform example_machine = Inr s1
         \<and> RGXGPUFreqCalibrationPeriodStop example_platform (set_accumulate True s1) = Inr s2
         \<and> stop_deltas example_platform example_machine = (600, 1002)
         \<and> stop_deltas example_platform s1 = (1600, 1006)
         \<and> accumulators s2 = (2200, 2008))"
proof -
  have h: "clock_defined example_platform example_machine"
    by (simp add: clock_defined_def example_defs enum_defs)
  have d0: "stop_deltas example_platform example_machine = (600, 1002)"
    by (simp add: stop_deltas_def clock_us_def clock_ns_def example_defs enum_defs)
  have f: "\<not> bAccumulatePeriod (psGpuDVFSTable example_machine)"
    by (simp add: example_defs)
  obtain s1 s2 where r1: "RGXGPUFreqCalibrationPeriodStop example_platform example_machine = Inr s1"
    and r2: "RGXGPUFreqCalibrationPeriodStop example_platform (set_accumulate True s1) = Inr s2"
    and a: "True \<and> (\<not> bAccumulatePeriod (psGpuDVFSTable example_machine)
                \<or> accumulators example_machine = (0, 0)) \<longrightarrow>
          accumulators s2 = (fst (stop_deltas example_platform example_machine)
                               + fst (stop_deltas example_platform s1),
                             snd (stop_deltas example_platform example_machine)
                               + snd (stop_deltas example_platform s1))"
    using Stop_twice [OF h, of True] by blast
  have d1: "stop_deltas example_platform s1 = (1600, 1006)"
    using r1 by (auto simp add: run_defs stop_deltas_def clock_us_def clock_ns_def example_defs)
  have "accumulators s2 = (2200, 2008)"
    using a f d0 d1 by simp
  with h r1 r2 d0 d1 show ?thesis by blast
qed

theorem Stop_twice_counterexample:
  "bAccumulatePeriod (psGpuDVFSTable merged_machine)
   \<and> accumulators merged_machine = (7, 9)
   \<and> stop_deltas example_platform merged_machine = (600, 1002)
   \<and> map_sum id (stop_deltas example_platform)
        (RGXGPUFreqCalibrationPeriodStop example_platform merged_machine) = Inr (1600, 1006)
   \<and> map_sum id accumulators (two_stops example_platform merged_machine) = Inr (2207, 2017)"
  by (simp add: two_stops_def run_defs stop_deltas_def accumulators_def clock_us_def clock_ns_def
      merged_machine_def example_defs)

subsection \<open>Start\<close>

text \<open>
  C4. Start opens a window for the bucket \<open>point\<close> of the nominal clock speed. If the
  known clock of \<open>point\<close> is zero or the nominal speed, it is set to the nominal speed
  and the calibration target is the first-calibration threshold; otherwise the table of
  clocks is left alone and the target is the transition threshold if it was the
  first-calibration threshold, else the periodic threshold. In all cases the hardware
  timer and the host time in microseconds are taken as the start of the window and the
  current index is \<open>point\<close>. The accumulators, the flag and the ring are untouched.
\<close>

theorem Start_window:
  assumes "clock_defined P s"
    and "point = RGX_GPU_DVFS_GET_INDEX P (psRGXTimingInfo_ui32CoreClockSpeed s)"
    and "unat point < length (aui32DVFSClock (psGpuDVFSTable s))"
    and "known = aui32DVFSClock (psGpuDVFSTable s) ! unat point"
  shows "\<exists>s'. RGXGPUFreqCalibrationPeriodStart P s = Inr s'
     \<and> (known = 0 \<or> known = psRGXTimingInfo_ui32CoreClockSpeed s \<longrightarrow>
          aui32DVFSClock (psGpuDVFSTable s') =
            (aui32DVFSClock (psGpuDVFSTable s))[unat point := psRGXTimingInfo_ui32CoreClockSpeed s]
          \<and> ui32CalibrationPeriod (psGpuDVFSTable s') = RGX_GPU_DVFS_FIRST_CALIBRATION_TIME_US P)
     \<and> (known \<noteq> 0 \<and> known \<noteq> psRGXTimingInfo_ui32CoreClockSpeed s \<longrightarrow>
          aui32DVFSClock (psGpuDVFSTable s') = aui32DVFSClock (psGpuDVFSTable s)
          \<and> ui32CalibrationPeriod (psGpuDVFSTable s') =
              (if ui32CalibrationPeriod (psGpuDVFSTable s) = RGX_GPU_DVFS_FIRST_CALIBRATION_TIME_US P
               then RGX_GPU_DVFS_TRANSITION_CALIBRATION_TIME_US P
               else RGX_GPU_DVFS_PERIODIC_CALIBRATION_TIME_US P))
     \<and> ui64CalibrationCRTimestamp (psGpuDVFSTable s') = RGXReadHWTimerReg P (now s)
     \<and> ui64CalibrationOSTimestamp (psGpuDVFSTable s') = clock_us P (g_ui32ClockSource s) (Suc (now s))
     \<and> ui32CurrentDVFSId (psGpuDVFSTable s') = point
     \<and> accumulators s' = accumulators s
     \<and> bAccumulatePeriod (psGpuDVFSTable s') = bAccumulatePeriod (psGpuDVFSTable s)
     \<and> psRGXFWIfGpuUtilFWCb s' = psRGXFWIfGpuUtilFWCb s
     \<and> g_ui32ClockSource s' = g_ui32ClockSource s
     \<and> calls s' = calls s @ [Call_RGXReadHWTimerReg] @ clock_call (g_ui32ClockSource s)"
  using assms(3,4) unfolding assms(2)
  by (simp add: Start_defined [OF assms(1)] accumulators_def)

theorem Start_window_witness:
  "clock_defined example_platform example_machine
   \<and> (10 :: IMG_UINT32) = RGX_GPU_DVFS_GET_INDEX example_platform
         (psRGXTimingInfo_ui32CoreClockSpeed example_machine)
   \<and> unat (10 :: IMG_UINT32) < length (aui32DVFSClock (psGpuDVFSTable example_machine))
   \<and> (100000000 :: IMG_UINT32) = aui32DVFSClock (psGpuDVFSTable example_machine) ! unat (10 :: IMG_UINT32)
   \<and> (\<exists>s'. RGXGPUFreqCalibrationPeriodStart example_platform example_machine = Inr s'
         \<and> aui32DVFSClock (psGpuDVFSTable s') ! 10 = 100000000
         \<and> ui32CalibrationPeriod (psGpuDVFSTable s') = 25000
         \<and> ui64CalibrationCRTimestamp (psGpuDVFSTable s') = 1000
         \<and> ui64CalibrationOSTimestamp (psGpuDVFSTable s') = 7002
         \<and> ui32CurrentDVFSId (psGpuDVFSTable s') = 10)
   \<and> (\<exists>s'. RGXGPUFreqCalibrationPeriodStart example_platform calibrated_machine = Inr s'
         \<and> aui32DVFSClock (psGpuDVFSTable s') ! 10 = 99999000
         \<and> ui32CalibrationPeriod (psGpuDVFSTable s') = 150000)"
proof -
  have k1: "clock_defined example_platform calibrated_machine"
    by (simp add: clock_defined_def calibrated_machine_def example_defs enum_defs)
  have k2: "(10 :: IMG_UINT32) = RGX_GPU_DVFS_GET_INDEX example_platform
         (psRGXTimingInfo_ui32CoreClockSpeed calibrated_machine)"
    by (simp add: calibrated_machine_def example_defs)
  have k3: "unat (10 :: IMG_UINT32) < length (aui32DVFSClock (psGpuDVFSTable calibrated_machine))"
    by (simp add: calibrated_machine_def example_defs)
  have k4: "(99999000 :: IMG_UINT32) =
      aui32DVFSClock (psGpuDVFSTable calibrated_machine) ! unat (10 :: IMG_UINT32)"
    by (simp add: calibrated_machine_def example_defs)
  have k: "\<exists>s'. RGXGPUFreqCalibrationPeriodStart example_platform calibrated_machine = Inr s'
         \<and> aui32DVFSClock (psGpuDVFSTable s') ! 10 = 99999000
         \<and> ui32CalibrationPeriod (psGpuDVFSTable s') = 150000"
    using Start_window [OF k1 k2 k3 k4]
    by (auto simp add: calibrated_machine_def example_defs)
  have h1: "clock_defined example_platform example_machine"
    by (simp add: clock_defined_def example_defs enum_defs)
  have h2: "(10 :: IMG_UINT32) = RGX_GPU_DVFS_GET_INDEX example_platform
         (psRGXTimingInfo_ui32CoreClockSpeed example_machine)"
    by (simp add: example_defs)
  have h3: "unat (10 :: IMG_UINT32) < length (aui32DVFSClock (psGpuDVFSTable example_machine))"
    by (simp add: example_defs)
  have h4: "(100000000 :: IMG_UINT32) = aui32DVFSClock (psGpuDVFSTable example_machine) ! unat (10 :: IMG_UINT32)"
    by (simp add: example_defs)
  have "\<exists>s'. RGXGPUFreqCalibrationPeriodStart example_platform example_machine = Inr s'
         \<and> aui32DVFSClock (psGpuDVFSTable s') ! 10 = 100000000
         \<and> ui32CalibrationPeriod (psGpuDVFSTable s') = 25000
         \<and> ui64CalibrationCRTimestamp (psGpuDVFSTable s') = 1000
         \<and> ui64CalibrationOSTimestamp (psGpuDVFSTable s') = 7002
         \<and> ui32CurrentDVFSId (psGpuDVFSTable s') = 10"
    using Start_window [OF h1 h2 h3 h4]
    by (auto simp add: example_defs clock_us_def clock_ns_def enum_defs)
  then show ?thesis
    using h1 h2 h3 h4 k by blast
qed

subsection \<open>The record writer and a failing clock\<close>




subsection \<open>Setting the selector\<close>

text \<open>
  C6. Setting the selector to a value that is none of mono, mono_raw and sched returns
  \<^verbatim>\<open>PVRSRV_ERROR_INVALID_PARAMS\<close> and leaves the whole state as it was: the selector
  keeps its value, no hook runs (no call to the host is made) and nothing else changes.
\<close>

theorem SetClock_invalid:
  assumes "ui32Value \<noteq> RGXTIMECORR_CLOCK_MONO"
    and "ui32Value \<noteq> RGXTIMECORR_CLOCK_MONO_RAW"
    and "ui32Value \<noteq> RGXTIMECORR_CLOCK_SCHED"
  shows "SetClock P ui32Value s = Inr (PVRSRV_ERROR_INVALID_PARAMS, s)"
proof -
  have "\<not> ui32Value < 3"
    using assms by (simp add: word_less_3 enum_defs)
  then show ?thesis
    by (simp add: SetClock_def enum_defs not_less)
qed

theorem SetClock_invalid_witness:
  "(7 :: IMG_UINT32) \<noteq> RGXTIMECORR_CLOCK_MONO
   \<and> (7 :: IMG_UINT32) \<noteq> RGXTIMECORR_CLOCK_MONO_RAW
   \<and> (7 :: IMG_UINT32) \<noteq> RGXTIMECORR_CLOCK_SCHED
   \<and> SetClock example_platform 7 example_machine = Inr (PVRSRV_ERROR_INVALID_PARAMS, example_machine)
   \<and> GetClock example_machine = (PVRSRV_OK, 0)"
proof -
  have h: "(7 :: IMG_UINT32) \<noteq> RGXTIMECORR_CLOCK_MONO"
    "(7 :: IMG_UINT32) \<noteq> RGXTIMECORR_CLOCK_MONO_RAW"
    "(7 :: IMG_UINT32) \<noteq> RGXTIMECORR_CLOCK_SCHED"
    by (simp_all add: enum_defs)
  have "GetClock example_machine = (PVRSRV_OK, 0)"
    by (simp add: GetClock_def example_defs)
  then show ?thesis
    using h SetClock_invalid [OF h, of example_platform example_machine] by simp
qed

subsection \<open>The periodic hook\<close>

text \<open>
  C7. On the host that owns the device, the periodic hook reads the host time once.
  If less than the calibration target has elapsed since the window opened, it returns
  and nothing else has happened. If the target is met and the power lock is held by
  somebody else, the attempt to take the lock fails and it returns. If the lock is
  taken and the device is not powered on, it releases the lock and returns. In all
  three cases the table and the ring are as before, no record is written, and the lock
  is in the state it was in.
\<close>

theorem CorrelatePeriodic_skips:
  assumes "\<not> DRIVER_MODE_GUEST P"
    and "clock_defined P s"
    and "elapsed = clock_us P (g_ui32ClockSource s) (now s) - ui64CalibrationOSTimestamp (psGpuDVFSTable s)"
    and "target = ucast (ui32CalibrationPeriod (psGpuDVFSTable s))"
  shows "(elapsed < target \<longrightarrow>
            RGXGPUFreqCalibrateCorrelatePeriodic P s =
              Inr (s\<lparr>now := now s + length (clock_call (g_ui32ClockSource s)),
                      calls := calls s @ clock_call (g_ui32ClockSource s)\<rparr>))
       \<and> (target \<le> elapsed \<and> hPowerLock s \<longrightarrow>
            RGXGPUFreqCalibrateCorrelatePeriodic P s =
              Inr (s\<lparr>now := now s + length (clock_call (g_ui32ClockSource s)),
                      calls := calls s @ clock_call (g_ui32ClockSource s)
                                 @ [Call_OSTryLockAcquire False]\<rparr>))
       \<and> (target \<le> elapsed \<and> \<not> hPowerLock s \<and> eDevPowerState s \<noteq> PVRSRV_DEV_POWER_STATE_ON \<longrightarrow>
            RGXGPUFreqCalibrateCorrelatePeriodic P s =
              Inr (s\<lparr>now := now s + length (clock_call (g_ui32ClockSource s)),
                      calls := calls s @ clock_call (g_ui32ClockSource s)
                                 @ [Call_OSTryLockAcquire True, Call_PVRSRVGetDevicePowerState,
                                    Call_PVRSRVPowerUnlock]\<rparr>))"
proof -
  have c: "RGXGPUFreqCalibrateClockus64 P s =
             Inr (clock_us P (g_ui32ClockSource s) (now s), after_clock s)"
    by (rule Clockus64_defined [OF assms(2)])
  have e: "clock_us P (g_ui32ClockSource s) (now s)
             - ui64CalibrationOSTimestamp (psGpuDVFSTable s) = elapsed"
    "ucast (ui32CalibrationPeriod (psGpuDVFSTable s)) = target"
    by (simp_all add: assms(3,4))
  show ?thesis
  proof (intro conjI impI)
    assume "elapsed < target"
    then show "RGXGPUFreqCalibrateCorrelatePeriodic P s =
              Inr (s\<lparr>now := now s + length (clock_call (g_ui32ClockSource s)),
                      calls := calls s @ clock_call (g_ui32ClockSource s)\<rparr>)"
      using assms(1) by (simp add: RGXGPUFreqCalibrateCorrelatePeriodic_def c e after_clock_def)
  next
    assume a: "target \<le> elapsed \<and> hPowerLock s"
    then have "\<not> elapsed < target"
      by (simp add: not_less)
    then show "RGXGPUFreqCalibrateCorrelatePeriodic P s =
              Inr (s\<lparr>now := now s + length (clock_call (g_ui32ClockSource s)),
                      calls := calls s @ clock_call (g_ui32ClockSource s)
                                 @ [Call_OSTryLockAcquire False]\<rparr>)"
      using assms(1) a
      by (simp add: RGXGPUFreqCalibrateCorrelatePeriodic_def c e after_clock_def host_call_def)
  next
    assume a: "target \<le> elapsed \<and> \<not> hPowerLock s \<and> eDevPowerState s \<noteq> PVRSRV_DEV_POWER_STATE_ON"
    then have "\<not> elapsed < target"
      by (simp add: not_less)
    then show "RGXGPUFreqCalibrateCorrelatePeriodic P s =
              Inr (s\<lparr>now := now s + length (clock_call (g_ui32ClockSource s)),
                      calls := calls s @ clock_call (g_ui32ClockSource s)
                                 @ [Call_OSTryLockAcquire True, Call_PVRSRVGetDevicePowerState,
                                    Call_PVRSRVPowerUnlock]\<rparr>)"
      using assms(1) a
      by (simp add: RGXGPUFreqCalibrateCorrelatePeriodic_def c e Let_def after_clock_def host_call_def)
  qed
qed


theorem CorrelatePeriodic_skips_witness:
  "\<not> DRIVER_MODE_GUEST example_platform
   \<and> clock_defined example_platform example_machine
   \<and> RGXGPUFreqCalibrateCorrelatePeriodic example_platform example_machine =
        Inr (example_machine\<lparr>now := 1, calls := [Call_OSClockMonotonicns64]\<rparr>)
   \<and> hPowerLock due_locked_machine
   \<and> RGXGPUFreqCalibrateCorrelatePeriodic example_platform due_locked_machine =
        Inr (due_locked_machine\<lparr>now := 1,
               calls := [Call_OSClockMonotonicns64, Call_OSTryLockAcquire False]\<rparr>)
   \<and> \<not> hPowerLock due_off_machine
   \<and> eDevPowerState due_off_machine \<noteq> PVRSRV_DEV_POWER_STATE_ON
   \<and> RGXGPUFreqCalibrateCorrelatePeriodic example_platform due_off_machine =
        Inr (due_off_machine\<lparr>now := 1,
               calls := [Call_OSClockMonotonicns64, Call_OSTryLockAcquire True,
                         Call_PVRSRVGetDevicePowerState, Call_PVRSRVPowerUnlock]\<rparr>)"
proof -
  have g: "\<not> DRIVER_MODE_GUEST example_platform"
    by (simp add: example_defs)
  have c1: "clock_defined example_platform example_machine"
    by (simp add: clock_defined_def example_defs enum_defs)
  have e1: "(1000 :: IMG_UINT64) = clock_us example_platform (g_ui32ClockSource example_machine)
              (now example_machine) - ui64CalibrationOSTimestamp (psGpuDVFSTable example_machine)"
    by (simp add: clock_us_def clock_ns_def example_defs enum_defs)
  have t1: "(25000 :: IMG_UINT64) = ucast (ui32CalibrationPeriod (psGpuDVFSTable example_machine))"
    by (simp add: example_defs)
  have r1: "RGXGPUFreqCalibrateCorrelatePeriodic example_platform example_machine =
        Inr (example_machine\<lparr>now := 1, calls := [Call_OSClockMonotonicns64]\<rparr>)"
    using CorrelatePeriodic_skips [OF g c1 e1 t1]
    by (simp add: clock_call_def example_defs enum_defs)
  have c2: "clock_defined example_platform due_locked_machine"
    by (simp add: clock_defined_def due_locked_machine_def example_defs enum_defs)
  have e2: "(1000 :: IMG_UINT64) = clock_us example_platform (g_ui32ClockSource due_locked_machine)
              (now due_locked_machine) - ui64CalibrationOSTimestamp (psGpuDVFSTable due_locked_machine)"
    by (simp add: clock_us_def clock_ns_def due_locked_machine_def example_defs enum_defs)
  have t2: "(500 :: IMG_UINT64) = ucast (ui32CalibrationPeriod (psGpuDVFSTable due_locked_machine))"
    by (simp add: due_locked_machine_def example_defs)
  have l2: "hPowerLock due_locked_machine"
    by (simp add: due_locked_machine_def example_defs)
  have r2: "RGXGPUFreqCalibrateCorrelatePeriodic example_platform due_locked_machine =
        Inr (due_locked_machine\<lparr>now := 1,
               calls := [Call_OSClockMonotonicns64, Call_OSTryLockAcquire False]\<rparr>)"
    using CorrelatePeriodic_skips [OF g c2 e2 t2] l2
    by (simp add: clock_call_def due_locked_machine_def example_defs enum_defs)
  have c3: "clock_defined example_platform due_off_machine"
    by (simp add: clock_defined_def due_off_machine_def example_defs enum_defs)
  have e3: "(1000 :: IMG_UINT64) = clock_us example_platform (g_ui32ClockSource due_off_machine)
              (now due_off_machine) - ui64CalibrationOSTimestamp (psGpuDVFSTable due_off_machine)"
    by (simp add: clock_us_def clock_ns_def due_off_machine_def example_defs enum_defs)
  have t3: "(500 :: IMG_UINT64) = ucast (ui32CalibrationPeriod (psGpuDVFSTable due_off_machine))"
    by (simp add: due_off_machine_def example_defs)
  have l3: "\<not> hPowerLock due_off_machine"
    "eDevPowerState due_off_machine \<noteq> PVRSRV_DEV_POWER_STATE_ON"
    by (simp_all add: due_off_machine_def example_defs)
  have r3: "RGXGPUFreqCalibrateCorrelatePeriodic example_platform due_off_machine =
        Inr (due_off_machine\<lparr>now := 1,
               calls := [Call_OSClockMonotonicns64, Call_OSTryLockAcquire True,
                         Call_PVRSRVGetDevicePowerState, Call_PVRSRVPowerUnlock]\<rparr>)"
    using CorrelatePeriodic_skips [OF g c3 e3 t3] l3
    by (simp add: clock_call_def due_off_machine_def example_defs enum_defs)
  show ?thesis
    using g c1 r1 l2 r2 l3 r3 by blast
qed

subsection \<open>After a clock speed change\<close>

text \<open>
  C2. On the host that owns the device: if the new speed maps to the bucket that is
  current, the hook returns the new speed, sets the accumulate flag and changes nothing
  else. If it maps to another bucket and the accumulated host time is at least the
  transition threshold (a threshold that is not zero), the hook returns the speed that
  Calculate has just computed (stored in the row of the old bucket, the accumulators
  reset), Start opens a new window (both snapshots, the row and the target of the
  bucket of the nominal speed, the current index), the record writer stores the record
  (hardware timer, host time, clock speed, scale factor) in the slot of the incremented
  sequence counter and passes it on to the trace layer, and the accumulate flag is
  cleared. The state after the call is given in full.
\<close>

theorem PostClockSpeedChange_result:
  assumes "\<not> DRIVER_MODE_GUEST P"
  shows "(RGX_GPU_DVFS_GET_INDEX P ui32NewClockSpeed = current_index s \<longrightarrow>
            RGXGPUFreqCalibratePostClockSpeedChange P ui32NewClockSpeed s
              = Inr (ui32NewClockSpeed, set_accumulate True s))
       \<and> (RGX_GPU_DVFS_GET_INDEX P ui32NewClockSpeed \<noteq> current_index s
           \<and> ucast (RGX_GPU_DVFS_TRANSITION_CALIBRATION_TIME_US P) \<le> snd (accumulators s)
           \<and> RGX_GPU_DVFS_TRANSITION_CALIBRATION_TIME_US P \<noteq> 0
           \<and> unat (current_index s) < length (known_clocks s)
           \<and> window_defined P s \<longrightarrow>
            (let tbl = psGpuDVFSTable s;
                 cur = unat (ui32CurrentDVFSId tbl);
                 hz = (if NO_HARDWARE P then aui32DVFSClock tbl ! cur
                       else ucast (ui64CalibrationCRTimediff tbl * 1000000
                                     div ui64CalibrationOSTimediff tbl));
                 t1 = (if NO_HARDWARE P then tbl
                       else tbl\<lparr>aui32DVFSClock := (aui32DVFSClock tbl)[cur := hz],
                                ui64CalibrationCRTimediff := 0,
                                ui64CalibrationOSTimediff := 0\<rparr>);
                 cb = psRGXFWIfGpuUtilFWCb s;
                 src = g_ui32ClockSource s;
                 speed = psRGXTimingInfo_ui32CoreClockSpeed s;
                 point = RGX_GPU_DVFS_GET_INDEX P speed;
                 known = aui32DVFSClock t1 ! unat point;
                 fresh = (known = 0 \<or> known = speed);
                 clk = (if fresh then speed else known);
                 n1 = Suc (now s + length (clock_call src));
                 n2 = n1 + length (workload_call P);
                 cr = RGXReadHWTimerReg P n2;
                 os = clock_ns P src (Suc n2);
                 old = sTimeCorr cb ! next_slot s
             in RGXGPUFreqCalibrationCalculate P s = Inr (hz, s\<lparr>psGpuDVFSTable := t1\<rparr>)
              \<and> RGXGPUFreqCalibratePostClockSpeedChange P ui32NewClockSpeed s = Inr (hz, s\<lparr>
                    psGpuDVFSTable := t1\<lparr>
                      ui64CalibrationCRTimestamp := RGXReadHWTimerReg P (now s),
                      ui64CalibrationOSTimestamp := clock_us P src (Suc (now s)),
                      aui32DVFSClock :=
                        (if fresh then (aui32DVFSClock t1)[unat point := speed]
                         else aui32DVFSClock t1),
                      ui32CalibrationPeriod :=
                        (if fresh then RGX_GPU_DVFS_FIRST_CALIBRATION_TIME_US P
                         else if ui32CalibrationPeriod t1 = RGX_GPU_DVFS_FIRST_CALIBRATION_TIME_US P
                         then RGX_GPU_DVFS_TRANSITION_CALIBRATION_TIME_US P
                         else RGX_GPU_DVFS_PERIODIC_CALIBRATION_TIME_US P),
                      ui32CurrentDVFSId := point,
                      bAccumulatePeriod := False\<rparr>,
                    psRGXFWIfGpuUtilFWCb := cb\<lparr>
                      sTimeCorr := (sTimeCorr cb)[next_slot s := old\<lparr>
                        ui64CRTimeStamp := cr,
                        ui64OSTimeStamp := os,
                        ui64OSMonoTimeStamp :=
                          (if SUPPORT_WORKLOAD_ESTIMATION P then snd (OSClockMonotonicns64 P n1)
                           else ui64OSMonoTimeStamp old),
                        ui32CoreClockSpeed := clk,
                        ui64CRDeltaToOSDeltaKNs := RGXFWIF_GET_CRDELTA_TO_OSDELTA_K_NS P clk\<rparr>],
                      ui32TimeCorrSeqCount := ui32TimeCorrSeqCount cb + 1\<rparr>,
                    now := Suc n2 + length (clock_call src),
                    calls := calls s @ [Call_RGXReadHWTimerReg] @ clock_call src @ workload_call P
                      @ [Call_RGXReadHWTimerReg] @ clock_call src
                      @ [Call_HTBSyncScale True os cr clk]\<rparr>)))"
proof (intro conjI impI)
  assume "RGX_GPU_DVFS_GET_INDEX P ui32NewClockSpeed = current_index s"
  then show "RGXGPUFreqCalibratePostClockSpeedChange P ui32NewClockSpeed s
              = Inr (ui32NewClockSpeed, set_accumulate True s)"
    using assms
    by (simp add: RGXGPUFreqCalibratePostClockSpeedChange_def current_index_def set_accumulate_def)
next
  assume a: "RGX_GPU_DVFS_GET_INDEX P ui32NewClockSpeed \<noteq> current_index s
           \<and> ucast (RGX_GPU_DVFS_TRANSITION_CALIBRATION_TIME_US P) \<le> snd (accumulators s)
           \<and> RGX_GPU_DVFS_TRANSITION_CALIBRATION_TIME_US P \<noteq> 0
           \<and> unat (current_index s) < length (known_clocks s)
           \<and> window_defined P s"
  then have b: "RGX_GPU_DVFS_GET_INDEX P ui32NewClockSpeed \<noteq> ui32CurrentDVFSId (psGpuDVFSTable s)"
    and t: "ucast (RGX_GPU_DVFS_TRANSITION_CALIBRATION_TIME_US P)
              \<le> ui64CalibrationOSTimediff (psGpuDVFSTable s)"
    and i: "unat (ui32CurrentDVFSId (psGpuDVFSTable s)) < length (aui32DVFSClock (psGpuDVFSTable s))"
    and w: "window_defined P s"
    by (simp_all add: current_index_def accumulators_def known_clocks_def)
  have z: "RGX_GPU_DVFS_TRANSITION_CALIBRATION_TIME_US P \<noteq> 0"
    using a by simp
  have u: "ui64CalibrationOSTimediff (psGpuDVFSTable s) \<noteq> 0"
    by (rule ucast_threshold_nonzero [OF z t])
  then have u': "NO_HARDWARE P \<or> ui64CalibrationOSTimediff (psGpuDVFSTable s) \<noteq> 0"
    by simp
  note c = Calculate_eq [OF u' i]
  show "let tbl = psGpuDVFSTable s;
                 cur = unat (ui32CurrentDVFSId tbl);
                 hz = (if NO_HARDWARE P then aui32DVFSClock tbl ! cur
                       else ucast (ui64CalibrationCRTimediff tbl * 1000000
                                     div ui64CalibrationOSTimediff tbl));
                 t1 = (if NO_HARDWARE P then tbl
                       else tbl\<lparr>aui32DVFSClock := (aui32DVFSClock tbl)[cur := hz],
                                ui64CalibrationCRTimediff := 0,
                                ui64CalibrationOSTimediff := 0\<rparr>);
                 cb = psRGXFWIfGpuUtilFWCb s;
                 src = g_ui32ClockSource s;
                 speed = psRGXTimingInfo_ui32CoreClockSpeed s;
                 point = RGX_GPU_DVFS_GET_INDEX P speed;
                 known = aui32DVFSClock t1 ! unat point;
                 fresh = (known = 0 \<or> known = speed);
                 clk = (if fresh then speed else known);
                 n1 = Suc (now s + length (clock_call src));
                 n2 = n1 + length (workload_call P);
                 cr = RGXReadHWTimerReg P n2;
                 os = clock_ns P src (Suc n2);
                 old = sTimeCorr cb ! next_slot s
             in RGXGPUFreqCalibrationCalculate P s = Inr (hz, s\<lparr>psGpuDVFSTable := t1\<rparr>)
              \<and> RGXGPUFreqCalibratePostClockSpeedChange P ui32NewClockSpeed s = Inr (hz, s\<lparr>
                    psGpuDVFSTable := t1\<lparr>
                      ui64CalibrationCRTimestamp := RGXReadHWTimerReg P (now s),
                      ui64CalibrationOSTimestamp := clock_us P src (Suc (now s)),
                      aui32DVFSClock :=
                        (if fresh then (aui32DVFSClock t1)[unat point := speed]
                         else aui32DVFSClock t1),
                      ui32CalibrationPeriod :=
                        (if fresh then RGX_GPU_DVFS_FIRST_CALIBRATION_TIME_US P
                         else if ui32CalibrationPeriod t1 = RGX_GPU_DVFS_FIRST_CALIBRATION_TIME_US P
                         then RGX_GPU_DVFS_TRANSITION_CALIBRATION_TIME_US P
                         else RGX_GPU_DVFS_PERIODIC_CALIBRATION_TIME_US P),
                      ui32CurrentDVFSId := point,
                      bAccumulatePeriod := False\<rparr>,
                    psRGXFWIfGpuUtilFWCb := cb\<lparr>
                      sTimeCorr := (sTimeCorr cb)[next_slot s := old\<lparr>
                        ui64CRTimeStamp := cr,
                        ui64OSTimeStamp := os,
                        ui64OSMonoTimeStamp :=
                          (if SUPPORT_WORKLOAD_ESTIMATION P then snd (OSClockMonotonicns64 P n1)
                           else ui64OSMonoTimeStamp old),
                        ui32CoreClockSpeed := clk,
                        ui64CRDeltaToOSDeltaKNs := RGXFWIF_GET_CRDELTA_TO_OSDELTA_K_NS P clk\<rparr>],
                      ui32TimeCorrSeqCount := ui32TimeCorrSeqCount cb + 1\<rparr>,
                    now := Suc n2 + length (clock_call src),
                    calls := calls s @ [Call_RGXReadHWTimerReg] @ clock_call src @ workload_call P
                      @ [Call_RGXReadHWTimerReg] @ clock_call src
                      @ [Call_HTBSyncScale True os cr clk]\<rparr>)"
  proof (cases "NO_HARDWARE P")
    case True
    then have c': "RGXGPUFreqCalibrationCalculate P s =
        Inr (aui32DVFSClock (psGpuDVFSTable s) ! unat (ui32CurrentDVFSId (psGpuDVFSTable s)), s)"
      using c by simp
    show ?thesis
      using Start_Make_eq [OF w, of True] assms b t True
      by (auto simp add: Let_def RGXGPUFreqCalibratePostClockSpeedChange_def c')
  next
    case False
    let ?hz = "ucast (ui64CalibrationCRTimediff (psGpuDVFSTable s) * 1000000
                        div ui64CalibrationOSTimediff (psGpuDVFSTable s)) :: IMG_UINT32"
    let ?x = "s\<lparr>psGpuDVFSTable := (psGpuDVFSTable s)\<lparr>
                     aui32DVFSClock := (aui32DVFSClock (psGpuDVFSTable s))
                       [unat (ui32CurrentDVFSId (psGpuDVFSTable s)) := ?hz],
                     ui64CalibrationCRTimediff := 0,
                     ui64CalibrationOSTimediff := 0\<rparr>\<rparr>"
    have c': "RGXGPUFreqCalibrationCalculate P s = Inr (?hz, ?x)"
      using c False by simp
    have w1: "window_defined P ?x"
      using w by (simp add: window_defined_table)
    show ?thesis
      using Start_Make_eq [OF w1, of True] assms b t False
      by (auto simp add: Let_def RGXGPUFreqCalibratePostClockSpeedChange_def c')
  qed
qed


theorem PostClockSpeedChange_result_witness:
  "\<not> DRIVER_MODE_GUEST example_platform
   \<and> RGX_GPU_DVFS_GET_INDEX example_platform 105000000 = current_index example_machine
   \<and> RGXGPUFreqCalibratePostClockSpeedChange example_platform 105000000 example_machine
        = Inr (105000000, set_accumulate True example_machine)
   \<and> RGX_GPU_DVFS_GET_INDEX example_platform 200000000 \<noteq> current_index transition_machine
   \<and> ucast (RGX_GPU_DVFS_TRANSITION_CALIBRATION_TIME_US example_platform)
        \<le> snd (accumulators transition_machine)
   \<and> RGX_GPU_DVFS_TRANSITION_CALIBRATION_TIME_US example_platform \<noteq> 0
   \<and> unat (current_index transition_machine) < length (known_clocks transition_machine)
   \<and> window_defined example_platform transition_machine
   \<and> map_sum id fst (RGXGPUFreqCalibrationCalculate example_platform transition_machine)
        = Inr 99900000
   \<and> (\<exists>s'. RGXGPUFreqCalibratePostClockSpeedChange example_platform 200000000 transition_machine
               = Inr (99900000, s')
         \<and> known_clocks s' ! 10 = 99900000
         \<and> known_clocks s' ! 20 = 200000000
         \<and> accumulators s' = (0, 0)
         \<and> current_index s' = 20
         \<and> ui64CalibrationCRTimestamp (psGpuDVFSTable s') = 1000
         \<and> ui64CalibrationOSTimestamp (psGpuDVFSTable s') = 7002
         \<and> ui32CalibrationPeriod (psGpuDVFSTable s') = 25000
         \<and> \<not> bAccumulatePeriod (psGpuDVFSTable s')
         \<and> seq_count s' = 1
         \<and> time_corr 1 s' = \<lparr>ui64OSTimeStamp = 7006000, ui64OSMonoTimeStamp = 0,
               ui64CRTimeStamp = 2000, ui32CoreClockSpeed = 200000000,
               ui64CRDeltaToOSDeltaKNs = 200000000\<rparr>
         \<and> calls s' = [Call_RGXReadHWTimerReg, Call_OSClockMonotonicns64,
                        Call_RGXReadHWTimerReg, Call_OSClockMonotonicns64,
                        Call_HTBSyncScale True 7006000 2000 200000000])"
proof -
  have g: "\<not> DRIVER_MODE_GUEST example_platform"
    by (simp add: example_defs)
  note th = PostClockSpeedChange_result [OF g]
  have a1: "RGX_GPU_DVFS_GET_INDEX example_platform 105000000 = current_index example_machine"
    by (simp add: current_index_def example_defs)
  have r1: "RGXGPUFreqCalibratePostClockSpeedChange example_platform 105000000 example_machine
        = Inr (105000000, set_accumulate True example_machine)"
    using th [of 105000000 example_machine] a1 by blast
  have b1: "RGX_GPU_DVFS_GET_INDEX example_platform 200000000 \<noteq> current_index transition_machine"
    by (simp add: current_index_def transition_machine_def example_defs)
  have b2: "ucast (RGX_GPU_DVFS_TRANSITION_CALIBRATION_TIME_US example_platform)
        \<le> snd (accumulators transition_machine)"
    by (simp add: accumulators_def transition_machine_def example_defs)
  have b3: "RGX_GPU_DVFS_TRANSITION_CALIBRATION_TIME_US example_platform \<noteq> 0"
    by (simp add: example_defs)
  have b4: "unat (current_index transition_machine) < length (known_clocks transition_machine)"
    by (simp add: current_index_def known_clocks_def transition_machine_def example_defs)
  have b5: "window_defined example_platform transition_machine"
    by (simp add: window_defined_def clock_defined_def workload_clock_ok_def clock_call_def
        transition_machine_def example_defs enum_defs)
  have b: "RGX_GPU_DVFS_GET_INDEX example_platform 200000000 \<noteq> current_index transition_machine
           \<and> ucast (RGX_GPU_DVFS_TRANSITION_CALIBRATION_TIME_US example_platform)
                \<le> snd (accumulators transition_machine)
           \<and> RGX_GPU_DVFS_TRANSITION_CALIBRATION_TIME_US example_platform \<noteq> 0
           \<and> unat (current_index transition_machine) < length (known_clocks transition_machine)
           \<and> window_defined example_platform transition_machine"
    using b1 b2 b3 b4 b5 by blast
  note r = th [of 200000000 transition_machine, THEN conjunct2, THEN mp, OF b]
  have c: "map_sum id fst (RGXGPUFreqCalibrationCalculate example_platform transition_machine)
        = Inr 99900000"
    using r
    by (simp add: Let_def transition_machine_def example_defs)
  have "\<exists>s'. RGXGPUFreqCalibratePostClockSpeedChange example_platform 200000000 transition_machine
               = Inr (99900000, s')
         \<and> known_clocks s' ! 10 = 99900000
         \<and> known_clocks s' ! 20 = 200000000
         \<and> accumulators s' = (0, 0)
         \<and> current_index s' = 20
         \<and> ui64CalibrationCRTimestamp (psGpuDVFSTable s') = 1000
         \<and> ui64CalibrationOSTimestamp (psGpuDVFSTable s') = 7002
         \<and> ui32CalibrationPeriod (psGpuDVFSTable s') = 25000
         \<and> \<not> bAccumulatePeriod (psGpuDVFSTable s')
         \<and> seq_count s' = 1
         \<and> time_corr 1 s' = \<lparr>ui64OSTimeStamp = 7006000, ui64OSMonoTimeStamp = 0,
               ui64CRTimeStamp = 2000, ui32CoreClockSpeed = 200000000,
               ui64CRDeltaToOSDeltaKNs = 200000000\<rparr>
         \<and> calls s' = [Call_RGXReadHWTimerReg, Call_OSClockMonotonicns64,
                        Call_RGXReadHWTimerReg, Call_OSClockMonotonicns64,
                        Call_HTBSyncScale True 7006000 2000 200000000]"
    using r
    by (simp add: Let_def known_clocks_def accumulators_def current_index_def seq_count_def
        time_corr_def next_slot_def RGXFWIF_TIME_CORR_CURR_INDEX_def clock_call_def clock_ns_def
        clock_us_def workload_call_def transition_machine_def example_defs enum_defs)
  then show ?thesis
    using g a1 r1 b1 b2 b3 b4 b5 c by blast
qed

text \<open>
  C10, as amended. On the host that owns the device, in a state where Start and the
  record writer are defined: if the new speed maps to another bucket than the current
  one and the accumulated host time is below the transition threshold, the hook returns
  the new speed unchanged and Calculate does not run (the accumulators keep their
  values). Start opens a new window for the bucket of the nominal clock speed of the
  device; when that speed maps to the bucket of the new speed, the window is for the new
  bucket and the known clock of the old bucket is not changed. The record writer stores
  the record in the slot of the incremented sequence counter and passes it on to the
  trace layer, and the accumulate flag is cleared. The state after the call is given in
  full.
\<close>

theorem PostClockSpeedChange_short_window:
  assumes "\<not> DRIVER_MODE_GUEST P"
    and "RGX_GPU_DVFS_GET_INDEX P ui32NewClockSpeed \<noteq> current_index s"
    and "snd (accumulators s) < ucast (RGX_GPU_DVFS_TRANSITION_CALIBRATION_TIME_US P)"
    and "window_defined P s"
  shows "(let tbl = psGpuDVFSTable s;
              cb = psRGXFWIfGpuUtilFWCb s;
              src = g_ui32ClockSource s;
              speed = psRGXTimingInfo_ui32CoreClockSpeed s;
              point = RGX_GPU_DVFS_GET_INDEX P speed;
              known = aui32DVFSClock tbl ! unat point;
              fresh = (known = 0 \<or> known = speed);
              clk = (if fresh then speed else known);
              n1 = Suc (now s + length (clock_call src));
              n2 = n1 + length (workload_call P);
              cr = RGXReadHWTimerReg P n2;
              os = clock_ns P src (Suc n2);
              old = sTimeCorr cb ! next_slot s
          in RGXGPUFreqCalibratePostClockSpeedChange P ui32NewClockSpeed s = Inr (ui32NewClockSpeed, s\<lparr>
                 psGpuDVFSTable := tbl\<lparr>
                   ui64CalibrationCRTimestamp := RGXReadHWTimerReg P (now s),
                   ui64CalibrationOSTimestamp := clock_us P src (Suc (now s)),
                   aui32DVFSClock :=
                     (if fresh then (aui32DVFSClock tbl)[unat point := speed]
                      else aui32DVFSClock tbl),
                   ui32CalibrationPeriod :=
                     (if fresh then RGX_GPU_DVFS_FIRST_CALIBRATION_TIME_US P
                      else if ui32CalibrationPeriod tbl = RGX_GPU_DVFS_FIRST_CALIBRATION_TIME_US P
                      then RGX_GPU_DVFS_TRANSITION_CALIBRATION_TIME_US P
                      else RGX_GPU_DVFS_PERIODIC_CALIBRATION_TIME_US P),
                   ui32CurrentDVFSId := point,
                   bAccumulatePeriod := False\<rparr>,
                 psRGXFWIfGpuUtilFWCb := cb\<lparr>
                   sTimeCorr := (sTimeCorr cb)[next_slot s := old\<lparr>
                     ui64CRTimeStamp := cr,
                     ui64OSTimeStamp := os,
                     ui64OSMonoTimeStamp :=
                       (if SUPPORT_WORKLOAD_ESTIMATION P then snd (OSClockMonotonicns64 P n1)
                        else ui64OSMonoTimeStamp old),
                     ui32CoreClockSpeed := clk,
                     ui64CRDeltaToOSDeltaKNs := RGXFWIF_GET_CRDELTA_TO_OSDELTA_K_NS P clk\<rparr>],
                   ui32TimeCorrSeqCount := ui32TimeCorrSeqCount cb + 1\<rparr>,
                 now := Suc n2 + length (clock_call src),
                 calls := calls s @ [Call_RGXReadHWTimerReg] @ clock_call src @ workload_call P
                   @ [Call_RGXReadHWTimerReg] @ clock_call src
                   @ [Call_HTBSyncScale True os cr clk]\<rparr>))
       \<and> (\<exists>s'. RGXGPUFreqCalibratePostClockSpeedChange P ui32NewClockSpeed s
                   = Inr (ui32NewClockSpeed, s')
             \<and> \<not> bAccumulatePeriod (psGpuDVFSTable s')
             \<and> accumulators s' = accumulators s
             \<and> current_index s' = RGX_GPU_DVFS_GET_INDEX P (psRGXTimingInfo_ui32CoreClockSpeed s)
             \<and> (RGX_GPU_DVFS_GET_INDEX P (psRGXTimingInfo_ui32CoreClockSpeed s)
                   = RGX_GPU_DVFS_GET_INDEX P ui32NewClockSpeed \<longrightarrow>
                  current_index s' = RGX_GPU_DVFS_GET_INDEX P ui32NewClockSpeed
                  \<and> known_clocks s' ! unat (current_index s)
                      = known_clocks s ! unat (current_index s)))"
proof -
  have b: "RGX_GPU_DVFS_GET_INDEX P ui32NewClockSpeed \<noteq> ui32CurrentDVFSId (psGpuDVFSTable s)"
    and t: "\<not> ucast (RGX_GPU_DVFS_TRANSITION_CALIBRATION_TIME_US P)
              \<le> ui64CalibrationOSTimediff (psGpuDVFSTable s)"
    using assms(2,3) by (simp_all add: current_index_def accumulators_def not_le)
  have A: "let tbl = psGpuDVFSTable s;
              cb = psRGXFWIfGpuUtilFWCb s;
              src = g_ui32ClockSource s;
              speed = psRGXTimingInfo_ui32CoreClockSpeed s;
              point = RGX_GPU_DVFS_GET_INDEX P speed;
              known = aui32DVFSClock tbl ! unat point;
              fresh = (known = 0 \<or> known = speed);
              clk = (if fresh then speed else known);
              n1 = Suc (now s + length (clock_call src));
              n2 = n1 + length (workload_call P);
              cr = RGXReadHWTimerReg P n2;
              os = clock_ns P src (Suc n2);
              old = sTimeCorr cb ! next_slot s
          in RGXGPUFreqCalibratePostClockSpeedChange P ui32NewClockSpeed s = Inr (ui32NewClockSpeed, s\<lparr>
                 psGpuDVFSTable := tbl\<lparr>
                   ui64CalibrationCRTimestamp := RGXReadHWTimerReg P (now s),
                   ui64CalibrationOSTimestamp := clock_us P src (Suc (now s)),
                   aui32DVFSClock :=
                     (if fresh then (aui32DVFSClock tbl)[unat point := speed]
                      else aui32DVFSClock tbl),
                   ui32CalibrationPeriod :=
                     (if fresh then RGX_GPU_DVFS_FIRST_CALIBRATION_TIME_US P
                      else if ui32CalibrationPeriod tbl = RGX_GPU_DVFS_FIRST_CALIBRATION_TIME_US P
                      then RGX_GPU_DVFS_TRANSITION_CALIBRATION_TIME_US P
                      else RGX_GPU_DVFS_PERIODIC_CALIBRATION_TIME_US P),
                   ui32CurrentDVFSId := point,
                   bAccumulatePeriod := False\<rparr>,
                 psRGXFWIfGpuUtilFWCb := cb\<lparr>
                   sTimeCorr := (sTimeCorr cb)[next_slot s := old\<lparr>
                     ui64CRTimeStamp := cr,
                     ui64OSTimeStamp := os,
                     ui64OSMonoTimeStamp :=
                       (if SUPPORT_WORKLOAD_ESTIMATION P then snd (OSClockMonotonicns64 P n1)
                        else ui64OSMonoTimeStamp old),
                     ui32CoreClockSpeed := clk,
                     ui64CRDeltaToOSDeltaKNs := RGXFWIF_GET_CRDELTA_TO_OSDELTA_K_NS P clk\<rparr>],
                   ui32TimeCorrSeqCount := ui32TimeCorrSeqCount cb + 1\<rparr>,
                 now := Suc n2 + length (clock_call src),
                 calls := calls s @ [Call_RGXReadHWTimerReg] @ clock_call src @ workload_call P
                   @ [Call_RGXReadHWTimerReg] @ clock_call src
                   @ [Call_HTBSyncScale True os cr clk]\<rparr>)"
    using Start_Make_eq [OF assms(4), of True] assms(1) b t
    by (auto simp add: Let_def RGXGPUFreqCalibratePostClockSpeedChange_def)
  have n: "RGX_GPU_DVFS_GET_INDEX P (psRGXTimingInfo_ui32CoreClockSpeed s)
             = RGX_GPU_DVFS_GET_INDEX P ui32NewClockSpeed \<Longrightarrow>
           unat (RGX_GPU_DVFS_GET_INDEX P (psRGXTimingInfo_ui32CoreClockSpeed s))
             \<noteq> unat (ui32CurrentDVFSId (psGpuDVFSTable s))"
    using b by (simp add: word_unat_eq_iff)
  have B: "\<exists>s'. RGXGPUFreqCalibratePostClockSpeedChange P ui32NewClockSpeed s
                   = Inr (ui32NewClockSpeed, s')
             \<and> \<not> bAccumulatePeriod (psGpuDVFSTable s')
             \<and> accumulators s' = accumulators s
             \<and> current_index s' = RGX_GPU_DVFS_GET_INDEX P (psRGXTimingInfo_ui32CoreClockSpeed s)
             \<and> (RGX_GPU_DVFS_GET_INDEX P (psRGXTimingInfo_ui32CoreClockSpeed s)
                   = RGX_GPU_DVFS_GET_INDEX P ui32NewClockSpeed \<longrightarrow>
                  current_index s' = RGX_GPU_DVFS_GET_INDEX P ui32NewClockSpeed
                  \<and> known_clocks s' ! unat (current_index s)
                      = known_clocks s ! unat (current_index s))"
    using A n
    by (auto simp add: Let_def accumulators_def current_index_def known_clocks_def)
  show ?thesis
    using A B by blast
qed


theorem PostClockSpeedChange_short_window_witness:
  "\<not> DRIVER_MODE_GUEST example_platform
   \<and> RGX_GPU_DVFS_GET_INDEX example_platform 200000000 \<noteq> current_index short_window_machine
   \<and> snd (accumulators short_window_machine)
        < ucast (RGX_GPU_DVFS_TRANSITION_CALIBRATION_TIME_US example_platform)
   \<and> window_defined example_platform short_window_machine
   \<and> (\<exists>s'. RGXGPUFreqCalibratePostClockSpeedChange example_platform 200000000 short_window_machine
               = Inr (200000000, s')
         \<and> known_clocks s' ! 10 = 100000000
         \<and> known_clocks s' ! 20 = 200000000
         \<and> accumulators s' = (99900, 1000)
         \<and> current_index s' = 20
         \<and> ui64CalibrationCRTimestamp (psGpuDVFSTable s') = 1000
         \<and> ui64CalibrationOSTimestamp (psGpuDVFSTable s') = 7002
         \<and> ui32CalibrationPeriod (psGpuDVFSTable s') = 25000
         \<and> \<not> bAccumulatePeriod (psGpuDVFSTable s')
         \<and> seq_count s' = 1
         \<and> time_corr 1 s' = \<lparr>ui64OSTimeStamp = 7006000, ui64OSMonoTimeStamp = 0,
               ui64CRTimeStamp = 2000, ui32CoreClockSpeed = 200000000,
               ui64CRDeltaToOSDeltaKNs = 200000000\<rparr>
         \<and> calls s' = [Call_RGXReadHWTimerReg, Call_OSClockMonotonicns64,
                        Call_RGXReadHWTimerReg, Call_OSClockMonotonicns64,
                        Call_HTBSyncScale True 7006000 2000 200000000])"
proof -
  have h1: "\<not> DRIVER_MODE_GUEST example_platform"
    by (simp add: example_defs)
  have h2: "RGX_GPU_DVFS_GET_INDEX example_platform 200000000 \<noteq> current_index short_window_machine"
    by (simp add: current_index_def short_window_machine_def example_defs)
  have h3: "snd (accumulators short_window_machine)
        < ucast (RGX_GPU_DVFS_TRANSITION_CALIBRATION_TIME_US example_platform)"
    by (simp add: accumulators_def short_window_machine_def example_defs)
  have h4: "window_defined example_platform short_window_machine"
    by (simp add: window_defined_def clock_defined_def workload_clock_ok_def clock_call_def
        short_window_machine_def example_defs enum_defs)
  note r = PostClockSpeedChange_short_window [OF h1 h2 h3 h4, THEN conjunct1]
  have "\<exists>s'. RGXGPUFreqCalibratePostClockSpeedChange example_platform 200000000 short_window_machine
               = Inr (200000000, s')
         \<and> known_clocks s' ! 10 = 100000000
         \<and> known_clocks s' ! 20 = 200000000
         \<and> accumulators s' = (99900, 1000)
         \<and> current_index s' = 20
         \<and> ui64CalibrationCRTimestamp (psGpuDVFSTable s') = 1000
         \<and> ui64CalibrationOSTimestamp (psGpuDVFSTable s') = 7002
         \<and> ui32CalibrationPeriod (psGpuDVFSTable s') = 25000
         \<and> \<not> bAccumulatePeriod (psGpuDVFSTable s')
         \<and> seq_count s' = 1
         \<and> time_corr 1 s' = \<lparr>ui64OSTimeStamp = 7006000, ui64OSMonoTimeStamp = 0,
               ui64CRTimeStamp = 2000, ui32CoreClockSpeed = 200000000,
               ui64CRDeltaToOSDeltaKNs = 200000000\<rparr>
         \<and> calls s' = [Call_RGXReadHWTimerReg, Call_OSClockMonotonicns64,
                        Call_RGXReadHWTimerReg, Call_OSClockMonotonicns64,
                        Call_HTBSyncScale True 7006000 2000 200000000]"
    using r
    by (simp add: Let_def known_clocks_def accumulators_def current_index_def seq_count_def
        time_corr_def next_slot_def RGXFWIF_TIME_CORR_CURR_INDEX_def clock_call_def clock_ns_def
        clock_us_def workload_call_def short_window_machine_def example_defs enum_defs)
  then show ?thesis
    using h1 h2 h3 h4 by blast
qed

theorem PostClockSpeedChange_short_window_counterexample:
  "RGX_GPU_DVFS_GET_INDEX example_platform 200000000 = 20
   \<and> current_index example_machine = 10
   \<and> snd (accumulators example_machine)
        < ucast (RGX_GPU_DVFS_TRANSITION_CALIBRATION_TIME_US example_platform)
   \<and> map_sum id fst
        (RGXGPUFreqCalibratePostClockSpeedChange example_platform 200000000 example_machine)
       = Inr 200000000
   \<and> map_sum id (current_index \<circ> snd)
        (RGXGPUFreqCalibratePostClockSpeedChange example_platform 200000000 example_machine)
       = Inr 10"
  by (simp add: RGXGPUFreqCalibratePostClockSpeedChange_def run_defs current_index_def
      accumulators_def example_defs)

subsection \<open>The order of the hooks around the change of the selector\<close>

text \<open>
  C8. Whenever setting the selector succeeds, the hook before the change has run on the
  state with the old selector, the selector has then been set, and the hook after the
  change has run on the state with the new selector. On the host that owns the device
  the hook before the change stops the window (reading the old clock, adding the deltas
  to the accumulators or replacing them) and, if the accumulated host time has reached
  the calibration target, calibrates (the computed speed goes to the row of the current
  bucket and the accumulators are reset); the hook after the change sets the accumulate
  flag, starts a window and writes a record into the slot of the incremented sequence
  counter, passed on to the trace layer, both reading the new clock. The calls to the
  host appear in this order, and the state after the call is given in full. In the
  guest role only the selector changes.
\<close>

theorem SetClock_order:
  assumes "SetClock P ui32Value s = Inr (PVRSRV_OK, s')"
  shows "(\<exists>s1. RGXGPUFreqCalibratePreClockSourceChange P s = Inr s1
     \<and> g_ui32ClockSource s1 = g_ui32ClockSource s
     \<and> RGXGPUFreqCalibratePostClockSourceChange P (s1\<lparr>g_ui32ClockSource := ui32Value\<rparr>) = Inr s'
     \<and> g_ui32ClockSource s' = ui32Value
     \<and> (\<not> DRIVER_MODE_GUEST P \<longrightarrow>
          (\<exists>sa. RGXGPUFreqCalibrationPeriodStop P s = Inr sa
             \<and> (if ucast (ui32CalibrationPeriod (psGpuDVFSTable sa))
                     \<le> ui64CalibrationOSTimediff (psGpuDVFSTable sa)
                then \<exists>hz. RGXGPUFreqCalibrationCalculate P sa = Inr (hz, s1)
                else s1 = sa))
        \<and> calls s1 = calls s @ [Call_RGXReadHWTimerReg] @ clock_call (g_ui32ClockSource s)
        \<and> (\<exists>sb. RGXGPUFreqCalibrationPeriodStart P
                    (set_accumulate True (s1\<lparr>g_ui32ClockSource := ui32Value\<rparr>)) = Inr sb
               \<and> RGXMakeTimeCorrData P True sb = Inr s')
        \<and> bAccumulatePeriod (psGpuDVFSTable s')
        \<and> seq_count s' = seq_count s + 1
        \<and> (\<exists>os cr clk. calls s' = calls s1 @ [Call_RGXReadHWTimerReg] @ clock_call ui32Value
              @ workload_call P @ [Call_RGXReadHWTimerReg] @ clock_call ui32Value
              @ [Call_HTBSyncScale True os cr clk])))
   \<and> (DRIVER_MODE_GUEST P \<longrightarrow> s' = s\<lparr>g_ui32ClockSource := ui32Value\<rparr>)
   \<and> (\<not> DRIVER_MODE_GUEST P \<longrightarrow>
        (let tbl = psGpuDVFSTable s;
             cb = psRGXFWIfGpuUtilFWCb s;
             src = g_ui32ClockSource s;
             crd = (if bAccumulatePeriod tbl then ui64CalibrationCRTimediff tbl else 0)
                     + (RGXReadHWTimerReg P (now s) - ui64CalibrationCRTimestamp tbl);
             osd = (if bAccumulatePeriod tbl then ui64CalibrationOSTimediff tbl else 0)
                     + (clock_us P src (Suc (now s)) - ui64CalibrationOSTimestamp tbl);
             ta = tbl\<lparr>ui64CalibrationCRTimediff := crd, ui64CalibrationOSTimediff := osd\<rparr>;
             cur = unat (ui32CurrentDVFSId tbl);
             hz = ucast (crd * 1000000 div osd);
             t1 = (if ucast (ui32CalibrationPeriod tbl) \<le> osd \<and> \<not> NO_HARDWARE P
                   then ta\<lparr>aui32DVFSClock := (aui32DVFSClock tbl)[cur := hz],
                           ui64CalibrationCRTimediff := 0,
                           ui64CalibrationOSTimediff := 0\<rparr>
                   else ta);
             n0 = Suc (now s + length (clock_call src));
             speed = psRGXTimingInfo_ui32CoreClockSpeed s;
             point = RGX_GPU_DVFS_GET_INDEX P speed;
             known = aui32DVFSClock t1 ! unat point;
             fresh = (known = 0 \<or> known = speed);
             clk = (if fresh then speed else known);
             n1 = Suc (n0 + length (clock_call ui32Value));
             n2 = n1 + length (workload_call P);
             cr = RGXReadHWTimerReg P n2;
             os = clock_ns P ui32Value (Suc n2);
             old = sTimeCorr cb ! next_slot s
         in s' = s\<lparr>
              g_ui32ClockSource := ui32Value,
              psGpuDVFSTable := t1\<lparr>
                bAccumulatePeriod := True,
                ui64CalibrationCRTimestamp := RGXReadHWTimerReg P n0,
                ui64CalibrationOSTimestamp := clock_us P ui32Value (Suc n0),
                aui32DVFSClock :=
                  (if fresh then (aui32DVFSClock t1)[unat point := speed] else aui32DVFSClock t1),
                ui32CalibrationPeriod :=
                  (if fresh then RGX_GPU_DVFS_FIRST_CALIBRATION_TIME_US P
                   else if ui32CalibrationPeriod t1 = RGX_GPU_DVFS_FIRST_CALIBRATION_TIME_US P
                   then RGX_GPU_DVFS_TRANSITION_CALIBRATION_TIME_US P
                   else RGX_GPU_DVFS_PERIODIC_CALIBRATION_TIME_US P),
                ui32CurrentDVFSId := point\<rparr>,
              psRGXFWIfGpuUtilFWCb := cb\<lparr>
                sTimeCorr := (sTimeCorr cb)[next_slot s := old\<lparr>
                  ui64CRTimeStamp := cr,
                  ui64OSTimeStamp := os,
                  ui64OSMonoTimeStamp :=
                    (if SUPPORT_WORKLOAD_ESTIMATION P then snd (OSClockMonotonicns64 P n1)
                     else ui64OSMonoTimeStamp old),
                  ui32CoreClockSpeed := clk,
                  ui64CRDeltaToOSDeltaKNs := RGXFWIF_GET_CRDELTA_TO_OSDELTA_K_NS P clk\<rparr>],
                ui32TimeCorrSeqCount := ui32TimeCorrSeqCount cb + 1\<rparr>,
              now := Suc n2 + length (clock_call ui32Value),
              calls := calls s @ [Call_RGXReadHWTimerReg] @ clock_call src
                @ [Call_RGXReadHWTimerReg] @ clock_call ui32Value @ workload_call P
                @ [Call_RGXReadHWTimerReg] @ clock_call ui32Value
                @ [Call_HTBSyncScale True os cr clk]\<rparr>))"
proof (intro conjI impI)
  show "\<exists>s1. RGXGPUFreqCalibratePreClockSourceChange P s = Inr s1
     \<and> g_ui32ClockSource s1 = g_ui32ClockSource s
     \<and> RGXGPUFreqCalibratePostClockSourceChange P (s1\<lparr>g_ui32ClockSource := ui32Value\<rparr>) = Inr s'
     \<and> g_ui32ClockSource s' = ui32Value
     \<and> (\<not> DRIVER_MODE_GUEST P \<longrightarrow>
          (\<exists>sa. RGXGPUFreqCalibrationPeriodStop P s = Inr sa
             \<and> (if ucast (ui32CalibrationPeriod (psGpuDVFSTable sa))
                     \<le> ui64CalibrationOSTimediff (psGpuDVFSTable sa)
                then \<exists>hz. RGXGPUFreqCalibrationCalculate P sa = Inr (hz, s1)
                else s1 = sa))
        \<and> calls s1 = calls s @ [Call_RGXReadHWTimerReg] @ clock_call (g_ui32ClockSource s)
        \<and> (\<exists>sb. RGXGPUFreqCalibrationPeriodStart P
                    (set_accumulate True (s1\<lparr>g_ui32ClockSource := ui32Value\<rparr>)) = Inr sb
               \<and> RGXMakeTimeCorrData P True sb = Inr s')
        \<and> bAccumulatePeriod (psGpuDVFSTable s')
        \<and> seq_count s' = seq_count s + 1
        \<and> (\<exists>os cr clk. calls s' = calls s1 @ [Call_RGXReadHWTimerReg] @ clock_call ui32Value
              @ workload_call P @ [Call_RGXReadHWTimerReg] @ clock_call ui32Value
              @ [Call_HTBSyncScale True os cr clk]))"
    by (rule SetClock_hooks [OF assms])
next
  assume "DRIVER_MODE_GUEST P"
  then show "s' = s\<lparr>g_ui32ClockSource := ui32Value\<rparr>"
    using assms
    by (auto simp add: SetClock_def RGXGPUFreqCalibratePreClockSourceChange_def
        RGXGPUFreqCalibratePostClockSourceChange_def split: if_splits)
next
  assume "\<not> DRIVER_MODE_GUEST P"
  then show "let tbl = psGpuDVFSTable s;
             cb = psRGXFWIfGpuUtilFWCb s;
             src = g_ui32ClockSource s;
             crd = (if bAccumulatePeriod tbl then ui64CalibrationCRTimediff tbl else 0)
                     + (RGXReadHWTimerReg P (now s) - ui64CalibrationCRTimestamp tbl);
             osd = (if bAccumulatePeriod tbl then ui64CalibrationOSTimediff tbl else 0)
                     + (clock_us P src (Suc (now s)) - ui64CalibrationOSTimestamp tbl);
             ta = tbl\<lparr>ui64CalibrationCRTimediff := crd, ui64CalibrationOSTimediff := osd\<rparr>;
             cur = unat (ui32CurrentDVFSId tbl);
             hz = ucast (crd * 1000000 div osd);
             t1 = (if ucast (ui32CalibrationPeriod tbl) \<le> osd \<and> \<not> NO_HARDWARE P
                   then ta\<lparr>aui32DVFSClock := (aui32DVFSClock tbl)[cur := hz],
                           ui64CalibrationCRTimediff := 0,
                           ui64CalibrationOSTimediff := 0\<rparr>
                   else ta);
             n0 = Suc (now s + length (clock_call src));
             speed = psRGXTimingInfo_ui32CoreClockSpeed s;
             point = RGX_GPU_DVFS_GET_INDEX P speed;
             known = aui32DVFSClock t1 ! unat point;
             fresh = (known = 0 \<or> known = speed);
             clk = (if fresh then speed else known);
             n1 = Suc (n0 + length (clock_call ui32Value));
             n2 = n1 + length (workload_call P);
             cr = RGXReadHWTimerReg P n2;
             os = clock_ns P ui32Value (Suc n2);
             old = sTimeCorr cb ! next_slot s
         in s' = s\<lparr>
              g_ui32ClockSource := ui32Value,
              psGpuDVFSTable := t1\<lparr>
                bAccumulatePeriod := True,
                ui64CalibrationCRTimestamp := RGXReadHWTimerReg P n0,
                ui64CalibrationOSTimestamp := clock_us P ui32Value (Suc n0),
                aui32DVFSClock :=
                  (if fresh then (aui32DVFSClock t1)[unat point := speed] else aui32DVFSClock t1),
                ui32CalibrationPeriod :=
                  (if fresh then RGX_GPU_DVFS_FIRST_CALIBRATION_TIME_US P
                   else if ui32CalibrationPeriod t1 = RGX_GPU_DVFS_FIRST_CALIBRATION_TIME_US P
                   then RGX_GPU_DVFS_TRANSITION_CALIBRATION_TIME_US P
                   else RGX_GPU_DVFS_PERIODIC_CALIBRATION_TIME_US P),
                ui32CurrentDVFSId := point\<rparr>,
              psRGXFWIfGpuUtilFWCb := cb\<lparr>
                sTimeCorr := (sTimeCorr cb)[next_slot s := old\<lparr>
                  ui64CRTimeStamp := cr,
                  ui64OSTimeStamp := os,
                  ui64OSMonoTimeStamp :=
                    (if SUPPORT_WORKLOAD_ESTIMATION P then snd (OSClockMonotonicns64 P n1)
                     else ui64OSMonoTimeStamp old),
                  ui32CoreClockSpeed := clk,
                  ui64CRDeltaToOSDeltaKNs := RGXFWIF_GET_CRDELTA_TO_OSDELTA_K_NS P clk\<rparr>],
                ui32TimeCorrSeqCount := ui32TimeCorrSeqCount cb + 1\<rparr>,
              now := Suc n2 + length (clock_call ui32Value),
              calls := calls s @ [Call_RGXReadHWTimerReg] @ clock_call src
                @ [Call_RGXReadHWTimerReg] @ clock_call ui32Value @ workload_call P
                @ [Call_RGXReadHWTimerReg] @ clock_call ui32Value
                @ [Call_HTBSyncScale True os cr clk]\<rparr>"
    by (rule SetClock_state [OF assms])
qed


theorem SetClock_order_witness:
  "\<exists>s'. SetClock example_platform RGXTIMECORR_CLOCK_MONO_RAW calibration_due_machine
        = Inr (PVRSRV_OK, s')
     \<and> g_ui32ClockSource calibration_due_machine = RGXTIMECORR_CLOCK_MONO
     \<and> g_ui32ClockSource s' = RGXTIMECORR_CLOCK_MONO_RAW
     \<and> known_clocks s' ! 10 = 99900000
     \<and> accumulators s' = (0, 0)
     \<and> bAccumulatePeriod (psGpuDVFSTable s')
     \<and> ui64CalibrationCRTimestamp (psGpuDVFSTable s') = 2000
     \<and> ui64CalibrationOSTimestamp (psGpuDVFSTable s') = 8006
     \<and> ui32CalibrationPeriod (psGpuDVFSTable s') = 150000
     \<and> current_index s' = 10
     \<and> seq_count s' = 1
     \<and> time_corr 1 s' = \<lparr>ui64OSTimeStamp = 8010000, ui64OSMonoTimeStamp = 0,
           ui64CRTimeStamp = 3000, ui32CoreClockSpeed = 99900000,
           ui64CRDeltaToOSDeltaKNs = 99900000\<rparr>
     \<and> calls s' = [Call_RGXReadHWTimerReg, Call_OSClockMonotonicns64,
                    Call_RGXReadHWTimerReg, Call_OSClockMonotonicRawns64,
                    Call_RGXReadHWTimerReg, Call_OSClockMonotonicRawns64,
                    Call_HTBSyncScale True 8010000 3000 99900000]"
proof -
  have ok: "map_sum id fst
              (SetClock example_platform RGXTIMECORR_CLOCK_MONO_RAW calibration_due_machine)
            = Inr PVRSRV_OK"
    by (simp add: SetClock_def RGXGPUFreqCalibratePreClockSourceChange_def
        RGXGPUFreqCalibratePostClockSourceChange_def run_defs calibration_due_machine_def
        example_defs word_le_nat_alt)
  obtain s' where r: "SetClock example_platform RGXTIMECORR_CLOCK_MONO_RAW calibration_due_machine
                        = Inr (PVRSRV_OK, s')"
    using ok
    by (cases "SetClock example_platform RGXTIMECORR_CLOCK_MONO_RAW calibration_due_machine") auto
  have g: "\<not> DRIVER_MODE_GUEST example_platform"
    by (simp add: example_defs)
  have o: "g_ui32ClockSource calibration_due_machine = RGXTIMECORR_CLOCK_MONO"
    by (simp add: calibration_due_machine_def example_defs enum_defs)
  note st = SetClock_order [OF r, THEN conjunct2, THEN conjunct2, THEN mp, OF g]
  have "g_ui32ClockSource s' = RGXTIMECORR_CLOCK_MONO_RAW
     \<and> known_clocks s' ! 10 = 99900000
     \<and> accumulators s' = (0, 0)
     \<and> bAccumulatePeriod (psGpuDVFSTable s')
     \<and> ui64CalibrationCRTimestamp (psGpuDVFSTable s') = 2000
     \<and> ui64CalibrationOSTimestamp (psGpuDVFSTable s') = 8006
     \<and> ui32CalibrationPeriod (psGpuDVFSTable s') = 150000
     \<and> current_index s' = 10
     \<and> seq_count s' = 1
     \<and> time_corr 1 s' = \<lparr>ui64OSTimeStamp = 8010000, ui64OSMonoTimeStamp = 0,
           ui64CRTimeStamp = 3000, ui32CoreClockSpeed = 99900000,
           ui64CRDeltaToOSDeltaKNs = 99900000\<rparr>
     \<and> calls s' = [Call_RGXReadHWTimerReg, Call_OSClockMonotonicns64,
                    Call_RGXReadHWTimerReg, Call_OSClockMonotonicRawns64,
                    Call_RGXReadHWTimerReg, Call_OSClockMonotonicRawns64,
                    Call_HTBSyncScale True 8010000 3000 99900000]"
    using st
    by (simp add: Let_def known_clocks_def accumulators_def current_index_def seq_count_def
        time_corr_def next_slot_def RGXFWIF_TIME_CORR_CURR_INDEX_def clock_call_def clock_ns_def
        clock_us_def workload_call_def calibration_due_machine_def example_defs enum_defs
        word_le_nat_alt)
  then show ?thesis
    using r o by blast
qed

end
